theory Spec2Isabelle
  imports Complex_Main "HOL-Library.Word" "HOL-Library.Multiset"
begin


section \<open>Fatal outcomes\<close>

text \<open>
  The C++ sources stop the process in several ways: \<open>ASSERT\<close>/\<open>FATAL\<close> of
  \<open>llbase/macros.h\<close> (which call \<open>exit\<close>), \<open>std::array::at\<close> throwing inside a
  \<open>noexcept\<close> function (\<open>std::terminate\<close>), and dereferencing a null pointer.
  Every such outcome is a value of \<open>error\<close>; a function that can stop this way returns
  \<open>error + 'a\<close>.
\<close>

datatype error =
    PoolOverrun          \<comment> \<open>ASSERT "memory pool overrun" in update_next_free_index\<close>
  | PoolBlockNotFree     \<comment> \<open>ASSERT "object block at index ... is not free" in allocate\<close>
  | PoolForeignObject    \<comment> \<open>ASSERT "object being deallocated does not belong to this pool"\<close>
  | PoolDoubleFree       \<comment> \<open>ASSERT "attempting to free a pool object which is NOT in use"\<close>
  | OutOfRange           \<comment> \<open>\<open>.at()\<close> out of range, or an unchecked index past the end\<close>
  | NullDeref            \<comment> \<open>dereference of \<open>nullptr\<close>\<close>
  | TooManyPending       \<comment> \<open>FATAL "too many pending requests" in the FIFO sequencer\<close>
  | InvalidRequest       \<comment> \<open>FATAL "Received invalid client request" in the matching engine\<close>

section \<open>llbase/mempool.h\<close>

text \<open>
  \<open>MemPool<T>\<close> holds a \<open>std::vector<Block>\<close> and the cursor \<open>i_next_free\<close>.  The
  vector is modelled by its size \<open>n_blocks\<close> and the function from index to block; a
  pointer into the pool is the index of its block.
\<close>

record 'a Block =
  object :: 'a
  is_free :: bool

record 'a MemPool =
  blocks :: "nat \<Rightarrow> 'a Block"
  n_blocks :: nat
  i_next_free :: nat

text \<open>The constructor \<open>MemPool(n_blocks)\<close>: every block holds \<open>T{}\<close> and is free.\<close>

definition new_MemPool :: "nat \<Rightarrow> 'a \<Rightarrow> 'a MemPool" where
  "new_MemPool n d = \<lparr>blocks = (\<lambda>_. \<lparr>object = d, is_free = True\<rparr>), n_blocks = n, i_next_free = 0\<rparr>"

text \<open>
  The loop of \<open>update_next_free_index\<close>; \<open>i\<close> is the cursor at entry.  The measure is
  the number of blocks still ahead of the cursor before it is back at \<open>i\<close>.
\<close>

function update_next_free_index_loop :: "'a MemPool \<Rightarrow> nat \<Rightarrow> error + 'a MemPool" where
  "update_next_free_index_loop p i =
     (if \<not> (i_next_free p < n_blocks p \<and> i < n_blocks p) then Inl OutOfRange
      else if is_free (blocks p (i_next_free p)) then Inr p
      else
        let j = (if i_next_free p + 1 = n_blocks p then 0 else i_next_free p + 1) in
        if i = j then Inl PoolOverrun
        else update_next_free_index_loop (p\<lparr>i_next_free := j\<rparr>) i)"
  by pat_completeness auto
termination
  by (relation "measure (\<lambda>(p, i).
        if i_next_free p < i then i - i_next_free p - 1
        else i + n_blocks p - i_next_free p - 1)")
     (auto split: if_splits)

declare update_next_free_index_loop.simps [simp del]

definition update_next_free_index :: "'a MemPool \<Rightarrow> error + 'a MemPool" where
  "update_next_free_index p = update_next_free_index_loop p (i_next_free p)"

definition allocate :: "'a MemPool \<Rightarrow> 'a \<Rightarrow> error + (nat \<times> 'a MemPool)" where
  "allocate p obj =
     (let i = i_next_free p in
      if \<not> i < n_blocks p then Inl OutOfRange
      else if \<not> is_free (blocks p i) then Inl PoolBlockNotFree
      else
        case update_next_free_index (p\<lparr>blocks := (blocks p)(i := \<lparr>object = obj, is_free = False\<rparr>)\<rparr>) of
          Inl e \<Rightarrow> Inl e
        | Inr p' \<Rightarrow> Inr (i, p'))"

definition deallocate :: "'a MemPool \<Rightarrow> nat \<Rightarrow> error + 'a MemPool" where
  "deallocate p i =
     (if \<not> i < n_blocks p then Inl PoolForeignObject
      else if is_free (blocks p i) then Inl PoolDoubleFree
      else Inr (p\<lparr>blocks := (blocks p)(i := (blocks p i)\<lparr>is_free := True\<rparr>)\<rparr>))"

definition get_n_blocks_free :: "'a MemPool \<Rightarrow> nat" where
  "get_n_blocks_free p = length (filter (\<lambda>i. is_free (blocks p i)) [0..<n_blocks p])"

definition get_n_blocks_used :: "'a MemPool \<Rightarrow> nat" where
  "get_n_blocks_used p = n_blocks p - get_n_blocks_free p"





section \<open>traderco/common/types.h\<close>

text \<open>
  The fixed-width identifiers are words of their width; \<open>ID_INVALID<T>\<close> is the largest
  value of \<open>T\<close>.  \<open>Price\<close> (\<open>int64_t\<close>) is modelled as \<open>int\<close>: the order books only
  compare prices and reduce them modulo \<open>MAX_PRICE_LEVELS\<close>, which agree on \<open>int\<close> and on
  \<open>int64_t\<close>.  \<open>Nanos\<close> (\<open>int64_t\<close>) is only compared and is \<open>int\<close> as well.
\<close>

type_synonym OrderID = "64 word"
type_synonym TickerID = "32 word"
type_synonym ClientID = "32 word"
type_synonym Price = int
type_synonym Qty = "32 word"
type_synonym Priority = "64 word"
type_synonym Nanos = int

definition OrderID_INVALID :: OrderID where "OrderID_INVALID = - 1"
definition TickerID_INVALID :: TickerID where "TickerID_INVALID = - 1"
definition ClientID_INVALID :: ClientID where "ClientID_INVALID = - 1"
definition Price_INVALID :: Price where "Price_INVALID = 2 ^ 63 - 1"
definition Qty_INVALID :: Qty where "Qty_INVALID = - 1"
definition Priority_INVALID :: Priority where "Priority_INVALID = - 1"

text \<open>
  \<open>Limits\<close>.  \<open>types.h\<close> defines \<open>IS_TEST_SUITE\<close> itself, so \<open>OME_SIZE\<close> is 16 in the
  sources as they are.
\<close>

definition OME_SIZE :: nat where "OME_SIZE = 16"
definition MAX_TICKERS :: nat where "MAX_TICKERS = 8"
definition MAX_CLIENT_UPDATES :: nat where "MAX_CLIENT_UPDATES = OME_SIZE * 1024"
definition MAX_MARKET_UPDATES :: nat where "MAX_MARKET_UPDATES = OME_SIZE * 1024"
definition MAX_N_CLIENTS :: nat where "MAX_N_CLIENTS = OME_SIZE"
definition MAX_ORDER_IDS :: nat where "MAX_ORDER_IDS = 1024 * 1024"
definition MAX_PRICE_LEVELS :: nat where "MAX_PRICE_LEVELS = OME_SIZE"
definition MAX_PENDING_ORDER_REQUESTS :: nat where "MAX_PENDING_ORDER_REQUESTS = 1024"

datatype Side = Side_INVALID | BUY | SELL | Side_MAX

text \<open>\<open>static_cast<size_t>(side) + 1\<close>: \<open>SELL\<close> is \<open>-1\<close> and wraps to index 0.\<close>

fun side_to_index :: "Side \<Rightarrow> nat" where
  "side_to_index SELL = 0"
| "side_to_index Side_INVALID = 1"
| "side_to_index BUY = 2"
| "side_to_index Side_MAX = 3"

fun side_to_value :: "Side \<Rightarrow> int" where
  "side_to_value Side_INVALID = 0"
| "side_to_value BUY = 1"
| "side_to_value SELL = - 1"
| "side_to_value Side_MAX = 2"

section \<open>llbase/lfqueue.h\<close>

text \<open>
  \<open>LFQueue<T>\<close>: the vector \<open>blocks\<close> (its size and the function from index to element),
  the counter \<open>n_blocks\<close> (a \<open>size_t\<close>, which wraps) and the two cursors.  Only one thread
  is modelled; the queues of the program are constructed with a positive size.
\<close>

record 'a LFQueue =
  lfq_blocks :: "nat \<Rightarrow> 'a"
  lfq_size :: nat
  lfq_n_blocks :: nat
  lfq_i_write :: nat
  lfq_i_read :: nat

definition new_LFQueue :: "nat \<Rightarrow> 'a \<Rightarrow> 'a LFQueue" where
  "new_LFQueue n d = \<lparr>lfq_blocks = (\<lambda>_. d), lfq_size = n, lfq_n_blocks = 0, lfq_i_write = 0, lfq_i_read = 0\<rparr>"

definition get_next_to_write :: "'a LFQueue \<Rightarrow> nat" where
  "get_next_to_write q = lfq_i_write q"

definition increment_write_index :: "'a LFQueue \<Rightarrow> 'a LFQueue" where
  "increment_write_index q =
     q\<lparr>lfq_i_write := (lfq_i_write q + 1) mod lfq_size q,
       lfq_n_blocks := (lfq_n_blocks q + 1) mod 2 ^ 64\<rparr>"

text \<open>
  The idiom of every producer: \<open>auto next = q.get_next_to_write(); *next = x;
  q.increment_write_index();\<close>
\<close>

definition lfq_write :: "'a LFQueue \<Rightarrow> 'a \<Rightarrow> 'a LFQueue" where
  "lfq_write q x =
     increment_write_index (q\<lparr>lfq_blocks := (lfq_blocks q)(get_next_to_write q := x)\<rparr>)"

text \<open>Writing a list of elements, first to last.\<close>

fun lfq_write_all :: "'a LFQueue \<Rightarrow> 'a list \<Rightarrow> 'a LFQueue" where
  "lfq_write_all q [] = q"
| "lfq_write_all q (x # xs) = lfq_write_all (lfq_write q x) xs"

text \<open>\<open>get_next_to_read\<close> (\<open>None\<close> is \<open>nullptr\<close>) and \<open>increment_read_index\<close>.\<close>

definition get_next_to_read :: "'a LFQueue \<Rightarrow> 'a option" where
  "get_next_to_read q = (if lfq_n_blocks q \<noteq> 0 then Some (lfq_blocks q (lfq_i_read q)) else None)"

text \<open>
  What a consumer reads from the queue until it is empty: the \<open>n_blocks\<close> elements from the
  read cursor on.
\<close>

definition lfq_pending :: "'a LFQueue \<Rightarrow> 'a list" where
  "lfq_pending q = map (\<lambda>k. lfq_blocks q ((lfq_i_read q + k) mod lfq_size q)) [0..<lfq_n_blocks q]"

section \<open>exchange/data: the messages\<close>

datatype RequestType = Request_INVALID | NEW | CANCEL

record OMEClientRequest =
  req_type :: RequestType
  req_client_id :: ClientID
  req_ticker_id :: TickerID
  req_order_id :: OrderID
  req_side :: Side
  req_price :: Price
  req_qty :: Qty

datatype ResponseType = Response_INVALID | ACCEPTED | CANCELLED | FILLED | CANCEL_REJECTED

record OMEClientResponse =
  resp_type :: ResponseType
  resp_client_id :: ClientID
  resp_ticker_id :: TickerID
  resp_client_order_id :: OrderID
  resp_market_order_id :: OrderID
  resp_side :: Side
  resp_price :: Price
  resp_qty_exec :: Qty
  resp_qty_remain :: Qty

datatype UpdateType =
  Update_INVALID | CLEAR | ADD | MODIFY | Update_CANCEL | TRADE | SNAPSHOT_START | SNAPSHOT_END

record OMEMarketUpdate =
  upd_type :: UpdateType
  upd_order_id :: OrderID
  upd_ticker_id :: TickerID
  upd_side :: Side
  upd_price :: Price
  upd_qty :: Qty
  upd_priority :: Priority

text \<open>The default-constructed messages (every field \<open>INVALID\<close>).\<close>

definition default_request :: OMEClientRequest where
  "default_request = \<lparr>req_type = Request_INVALID, req_client_id = ClientID_INVALID,
     req_ticker_id = TickerID_INVALID, req_order_id = OrderID_INVALID, req_side = Side_INVALID,
     req_price = Price_INVALID, req_qty = Qty_INVALID\<rparr>"

definition default_response :: OMEClientResponse where
  "default_response = \<lparr>resp_type = Response_INVALID, resp_client_id = ClientID_INVALID,
     resp_ticker_id = TickerID_INVALID, resp_client_order_id = OrderID_INVALID,
     resp_market_order_id = OrderID_INVALID, resp_side = Side_INVALID,
     resp_price = Price_INVALID, resp_qty_exec = Qty_INVALID, resp_qty_remain = Qty_INVALID\<rparr>"

definition default_update :: OMEMarketUpdate where
  "default_update = \<lparr>upd_type = Update_INVALID, upd_order_id = OrderID_INVALID,
     upd_ticker_id = TickerID_INVALID, upd_side = Side_INVALID, upd_price = Price_INVALID,
     upd_qty = Qty_INVALID, upd_priority = Priority_INVALID\<rparr>"

section \<open>exchange/networking/fifo_sequencer.h\<close>

record PendingClientRequest =
  t_rx :: Nanos
  request :: OMEClientRequest

text \<open>
  The sequencer: the queue to the matching engine, the array \<open>pending_requests\<close> of
  \<open>MAX_PENDING_ORDER_REQUESTS\<close> entries (as the function from index to entry) and the count.
\<close>

record FIFOSequencer =
  rx_requests :: "OMEClientRequest LFQueue"
  pending_requests :: "nat \<Rightarrow> PendingClientRequest"
  n_pending_requests :: nat

definition push_client_request ::
  "FIFOSequencer \<Rightarrow> OMEClientRequest \<Rightarrow> Nanos \<Rightarrow> error + FIFOSequencer" where
  "push_client_request s r t =
     (if n_pending_requests s \<ge> MAX_PENDING_ORDER_REQUESTS then Inl TooManyPending
      else Inr (s\<lparr>pending_requests := (pending_requests s)(n_pending_requests s := \<lparr>t_rx = t, request = r\<rparr>),
                 n_pending_requests := n_pending_requests s + 1\<rparr>))"

text \<open>
  \<open>sequence_and_publish\<close>.  \<open>std::sort\<close> is not code of the repository and fixes no
  algorithm: it is the parameter \<open>srt\<close>, which receives the slice
  \<open>[begin, begin + n_pending_requests)\<close> and returns its new content.  A count beyond the
  array (which \<open>push_client_request\<close> never produces) would sort and read past its end.
\<close>

definition sequence_and_publish ::
  "(PendingClientRequest list \<Rightarrow> PendingClientRequest list) \<Rightarrow> FIFOSequencer \<Rightarrow> error + FIFOSequencer" where
  "sequence_and_publish srt s =
     (if n_pending_requests s = 0 then Inr s
      else if n_pending_requests s > MAX_PENDING_ORDER_REQUESTS then Inl OutOfRange
      else
        let n = n_pending_requests s;
            sorted_slice = srt (map (pending_requests s) [0..<n]);
            pending' = (\<lambda>i. if i < n then sorted_slice ! i else pending_requests s i);
            q' = foldl (\<lambda>q i. lfq_write q (request (pending' i))) (rx_requests s) [0..<n]
        in Inr (s\<lparr>rx_requests := q', pending_requests := pending', n_pending_requests := 0\<rparr>))"

text \<open>The contract of \<open>std::sort\<close> with \<open>operator<\<close> of \<open>PendingClientRequest\<close>.\<close>

definition sorts_by_t_rx :: "(PendingClientRequest list \<Rightarrow> PendingClientRequest list) \<Rightarrow> bool" where
  "sorts_by_t_rx srt = (\<forall>xs. mset (srt xs) = mset xs \<and> sorted (map t_rx (srt xs)))"


subsection \<open>Counting the free blocks\<close>

text \<open>These facts about \<open>get_n_blocks_free\<close> are needed for the termination of the matching
  loop of the order book below.\<close>

lemma free_card: "get_n_blocks_free p = card {j. j < n_blocks p \<and> is_free (blocks p j)}"
proof -
  have "{j. j < n_blocks p \<and> is_free (blocks p j)} = set (filter (\<lambda>i. is_free (blocks p i)) [0..<n_blocks p])"
    by auto
  then show ?thesis
    by (simp add: get_n_blocks_free_def distinct_card del: set_filter)
qed

lemma free_le: "get_n_blocks_free p \<le> n_blocks p"
  unfolding get_n_blocks_free_def by (rule order_trans[OF length_filter_le]) simp


lemma free_mark_free:
  assumes "i < n_blocks p" "\<not> is_free (blocks p i)"
  shows "get_n_blocks_free (p\<lparr>blocks := (blocks p)(i := (blocks p i)\<lparr>is_free := True\<rparr>)\<rparr>) = get_n_blocks_free p + 1"
proof -
  let ?A = "{j. j < n_blocks p \<and> is_free (blocks p j)}"
  have fin: "finite ?A" by simp
  have "{j. j < n_blocks p \<and> is_free (((blocks p)(i := (blocks p i)\<lparr>is_free := True\<rparr>)) j)} = insert i ?A"
    using assms by auto
  moreover have "i \<notin> ?A" using assms by simp
  ultimately show ?thesis using fin by (simp add: free_card)
qed


section \<open>exchange/orders/ome_order.h\<close>

text \<open>
  Orders and price levels live in the two memory pools of the book, so a pointer to one of
  them is the index of its pool block; \<open>None\<close> is \<open>nullptr\<close>.
\<close>

record OMEOrder =
  o_ticker_id :: TickerID
  o_client_id :: ClientID
  o_client_order_id :: OrderID
  o_market_order_id :: OrderID
  o_side :: Side
  o_price :: Price
  o_qty :: Qty
  o_priority :: Priority
  o_prev :: "nat option"
  o_next :: "nat option"

record OMEOrdersAtPrice =
  l_side :: Side
  l_price :: Price
  l_order_0 :: "nat option"
  l_prev :: "nat option"
  l_next :: "nat option"

definition default_OMEOrder :: OMEOrder where
  "default_OMEOrder = \<lparr>o_ticker_id = TickerID_INVALID, o_client_id = ClientID_INVALID,
     o_client_order_id = OrderID_INVALID, o_market_order_id = OrderID_INVALID,
     o_side = Side_INVALID, o_price = Price_INVALID, o_qty = Qty_INVALID,
     o_priority = Priority_INVALID, o_prev = None, o_next = None\<rparr>"

definition default_OMEOrdersAtPrice :: OMEOrdersAtPrice where
  "default_OMEOrdersAtPrice = \<lparr>l_side = Side_INVALID, l_price = Price_INVALID,
     l_order_0 = None, l_prev = None, l_next = None\<rparr>"

section \<open>exchange/orders/ome_order_book.h and ome_order_book.cpp\<close>

text \<open>
  The book.  \<open>map_client_id_to_order\<close> is the array of \<open>MAX_N_CLIENTS\<close> arrays of
  \<open>MAX_ORDER_IDS\<close> pointers, \<open>map_price_to_price_level\<close> the array of
  \<open>MAX_PRICE_LEVELS\<close> pointers.  The member \<open>map_client_id_to_order\<close> has no initialiser
  and the constructor does not fill it, so its contents in a new book are whatever the
  memory holds: the parameter \<open>m0\<close> of \<open>new_OMEOrderBook\<close>.  \<open>tx_responses\<close> and \<open>tx_market_updates\<close> are the two
  queues of the matching engine that \<open>ome.send_client_response\<close> and
  \<open>ome.send_market_update\<close> write to.
\<close>

record OMEOrderBook =
  assigned_ticker :: TickerID
  map_client_id_to_order :: "nat \<Rightarrow> nat \<Rightarrow> nat option"
  orders_at_price_pool :: "OMEOrdersAtPrice MemPool"
  bids_by_price :: "nat option"
  asks_by_price :: "nat option"
  map_price_to_price_level :: "nat \<Rightarrow> nat option"
  order_pool :: "OMEOrder MemPool"
  client_response :: OMEClientResponse
  market_update :: OMEMarketUpdate
  next_market_oid :: OrderID
  tx_responses :: "OMEClientResponse LFQueue"
  tx_market_updates :: "OMEMarketUpdate LFQueue"

definition new_OMEOrderBook :: "TickerID \<Rightarrow> (nat \<Rightarrow> nat \<Rightarrow> nat option) \<Rightarrow> OMEOrderBook" where
  "new_OMEOrderBook ticker m0 =
     \<lparr>assigned_ticker = ticker,
      map_client_id_to_order = m0,
      orders_at_price_pool = new_MemPool MAX_PRICE_LEVELS default_OMEOrdersAtPrice,
      bids_by_price = None,
      asks_by_price = None,
      map_price_to_price_level = (\<lambda>_. None),
      order_pool = new_MemPool MAX_ORDER_IDS default_OMEOrder,
      client_response = default_response,
      market_update = default_update,
      next_market_oid = 1,
      tx_responses = new_LFQueue MAX_CLIENT_UPDATES default_response,
      tx_market_updates = new_LFQueue MAX_MARKET_UPDATES default_update\<rparr>"

text \<open>Reading and writing through a pointer into one of the pools.\<close>

definition order_at :: "OMEOrderBook \<Rightarrow> nat \<Rightarrow> OMEOrder" where
  "order_at b p = object (blocks (order_pool b) p)"

definition level_at :: "OMEOrderBook \<Rightarrow> nat \<Rightarrow> OMEOrdersAtPrice" where
  "level_at b p = object (blocks (orders_at_price_pool b) p)"

definition upd_order :: "OMEOrderBook \<Rightarrow> nat \<Rightarrow> (OMEOrder \<Rightarrow> OMEOrder) \<Rightarrow> OMEOrderBook" where
  "upd_order b p f =
     b\<lparr>order_pool := (order_pool b)\<lparr>blocks :=
         (blocks (order_pool b))(p := (blocks (order_pool b) p)\<lparr>object := f (order_at b p)\<rparr>)\<rparr>\<rparr>"

definition upd_level :: "OMEOrderBook \<Rightarrow> nat \<Rightarrow> (OMEOrdersAtPrice \<Rightarrow> OMEOrdersAtPrice) \<Rightarrow> OMEOrderBook" where
  "upd_level b p f =
     b\<lparr>orders_at_price_pool := (orders_at_price_pool b)\<lparr>blocks :=
         (blocks (orders_at_price_pool b))(p := (blocks (orders_at_price_pool b) p)\<lparr>object := f (level_at b p)\<rparr>)\<rparr>\<rparr>"

text \<open>
  \<open>(side == Side::BUY ? bids_by_price : asks_by_price)\<close>, as a value and as the target of
  an assignment.
\<close>

definition best_of_side :: "OMEOrderBook \<Rightarrow> Side \<Rightarrow> nat option" where
  "best_of_side b s = (if s = BUY then bids_by_price b else asks_by_price b)"

definition set_best_of_side :: "OMEOrderBook \<Rightarrow> Side \<Rightarrow> nat option \<Rightarrow> OMEOrderBook" where
  "set_best_of_side b s p = (if s = BUY then b\<lparr>bids_by_price := p\<rparr> else b\<lparr>asks_by_price := p\<rparr>)"

text \<open>
  \<open>price % Limits::MAX_PRICE_LEVELS\<close>: the \<open>int64_t\<close> price is converted to the unsigned
  64-bit type of the limit before the remainder is taken; as \<open>MAX_PRICE_LEVELS\<close> divides
  \<open>2 ^ 64\<close>, the result is the non-negative remainder of the price.
\<close>

definition price_to_index :: "Price \<Rightarrow> nat" where
  "price_to_index price = nat (price mod int MAX_PRICE_LEVELS)"

definition get_level_for_price :: "OMEOrderBook \<Rightarrow> Price \<Rightarrow> nat option" where
  "get_level_for_price b price = map_price_to_price_level b (price_to_index price)"

definition get_new_market_order_id :: "OMEOrderBook \<Rightarrow> OrderID \<times> OMEOrderBook" where
  "get_new_market_order_id b = (next_market_oid b, b\<lparr>next_market_oid := next_market_oid b + 1\<rparr>)"

definition get_next_priority :: "OMEOrderBook \<Rightarrow> Price \<Rightarrow> error + Priority" where
  "get_next_priority b price =
     (case get_level_for_price b price of
        None \<Rightarrow> Inr 1
      | Some l \<Rightarrow>
          (case l_order_0 (level_at b l) of
             None \<Rightarrow> Inl NullDeref
           | Some first_order \<Rightarrow>
               (case o_prev (order_at b first_order) of
                  None \<Rightarrow> Inl NullDeref
                | Some t \<Rightarrow> Inr (o_priority (order_at b t) + 1))))"

text \<open>\<open>OrderMatchingEngine::send_client_response\<close> and \<open>send_market_update\<close>, called with
  the addresses of the members \<open>client_response\<close> and \<open>market_update\<close>.\<close>

definition send_client_response :: "OMEOrderBook \<Rightarrow> OMEOrderBook" where
  "send_client_response b = b\<lparr>tx_responses := lfq_write (tx_responses b) (client_response b)\<rparr>"

definition send_market_update :: "OMEOrderBook \<Rightarrow> OMEOrderBook" where
  "send_market_update b = b\<lparr>tx_market_updates := lfq_write (tx_market_updates b) (market_update b)\<rparr>"

subsection \<open>add_price_level\<close>

text \<open>The test that the source writes out four times: is the new level less aggressive
  than the target?\<close>

definition should_add_after_test :: "OMEOrdersAtPrice \<Rightarrow> OMEOrdersAtPrice \<Rightarrow> bool" where
  "should_add_after_test new target =
     ((l_side new = SELL \<and> l_price new > l_price target) \<or>
      (l_side new = BUY \<and> l_price new < l_price target))"

text \<open>
  The \<open>while\<close> loop of \<open>add_price_level\<close>.  It follows \<open>next\<close> pointers until it is back
  at the best level, so on a heap whose levels are not linked in a ring through the best
  level it may never return: the value \<open>None\<close>.
\<close>

partial_function (option) add_price_level_loop ::
  "OMEOrderBook \<Rightarrow> nat \<Rightarrow> nat \<Rightarrow> nat option \<Rightarrow> bool \<Rightarrow> (error + (nat option \<times> bool)) option" where
  "add_price_level_loop b new best target should_add_after =
     (if should_add_after \<and> target \<noteq> Some best then
        (case target of
           None \<Rightarrow> Some (Inl NullDeref)
         | Some t \<Rightarrow>
             if should_add_after_test (level_at b new) (level_at b t)
             then add_price_level_loop b new best (l_next (level_at b t)) True
             else add_price_level_loop b new best target False)
      else Some (Inr (target, should_add_after)))"

declare add_price_level_loop.simps [code]

text \<open>The branch "insert after target" and the branch "insert before target".\<close>

definition insert_level_after :: "OMEOrderBook \<Rightarrow> nat \<Rightarrow> nat \<Rightarrow> nat option \<Rightarrow> error + OMEOrderBook" where
  "insert_level_after b new best target0 =
     (let target = (if target0 = Some best then l_prev (level_at b best) else target0) in
      case target of
        None \<Rightarrow> Inl NullDeref
      | Some t \<Rightarrow>
          let b1 = upd_level b new (\<lambda>l. l\<lparr>l_prev := Some t\<rparr>) in
          (case l_next (level_at b1 t) of
             None \<Rightarrow> Inl NullDeref
           | Some tn \<Rightarrow>
               let b2 = upd_level b1 tn (\<lambda>l. l\<lparr>l_prev := Some new\<rparr>);
                   b3 = upd_level b2 new (\<lambda>l. l\<lparr>l_next := l_next (level_at b2 t)\<rparr>);
                   b4 = upd_level b3 t (\<lambda>l. l\<lparr>l_next := Some new\<rparr>)
               in Inr b4))"

definition insert_level_before :: "OMEOrderBook \<Rightarrow> nat \<Rightarrow> nat \<Rightarrow> nat option \<Rightarrow> error + OMEOrderBook" where
  "insert_level_before b new best target =
     (case target of
        None \<Rightarrow> Inl NullDeref
      | Some t \<Rightarrow>
          let b1 = upd_level b new (\<lambda>l. l\<lparr>l_prev := l_prev (level_at b t)\<rparr>);
              b2 = upd_level b1 new (\<lambda>l. l\<lparr>l_next := Some t\<rparr>)
          in
          (case l_prev (level_at b2 t) of
             None \<Rightarrow> Inl NullDeref
           | Some tp \<Rightarrow>
               let b3 = upd_level b2 tp (\<lambda>l. l\<lparr>l_next := Some new\<rparr>);
                   b4 = upd_level b3 t (\<lambda>l. l\<lparr>l_prev := Some new\<rparr>);
                   n = level_at b4 new;
                   bst = level_at b4 best
               in
               if (l_side n = BUY \<and> l_price n > l_price bst) \<or> (l_side n = SELL \<and> l_price n < l_price bst)
               then
                 let b5 = upd_level b4 t (\<lambda>l. l\<lparr>l_next :=
                            (if l_next (level_at b4 t) = Some best then Some new else l_next (level_at b4 t))\<rparr>)
                 in Inr (set_best_of_side b5 (l_side n) (Some new))
               else Inr b4))"

definition add_price_level :: "OMEOrderBook \<Rightarrow> nat \<Rightarrow> (error + OMEOrderBook) option" where
  "add_price_level b new =
     (let b0 = b\<lparr>map_price_to_price_level :=
                 (map_price_to_price_level b)(price_to_index (l_price (level_at b new)) := Some new)\<rparr>;
          side = l_side (level_at b0 new)
      in
      case best_of_side b0 side of
        None \<Rightarrow>
          Some (Inr (upd_level (set_best_of_side b0 side (Some new)) new
                      (\<lambda>l. l\<lparr>l_prev := Some new, l_next := Some new\<rparr>)))
      | Some best \<Rightarrow>
          let saa0 = should_add_after_test (level_at b0 new) (level_at b0 best);
              first = (if saa0 then
                         (case l_next (level_at b0 best) of
                            None \<Rightarrow> Inl NullDeref
                          | Some t \<Rightarrow> Inr (Some t, should_add_after_test (level_at b0 new) (level_at b0 t)))
                       else Inr (Some best, saa0))
          in
          (case first of
             Inl e \<Rightarrow> Some (Inl e)
           | Inr (target1, saa1) \<Rightarrow>
               (case add_price_level_loop b0 new best target1 saa1 of
                  None \<Rightarrow> None
                | Some (Inl e) \<Rightarrow> Some (Inl e)
                | Some (Inr (target, saa)) \<Rightarrow>
                    Some (if saa then insert_level_after b0 new best target
                          else insert_level_before b0 new best target))))"

subsection \<open>remove_price_level\<close>

definition remove_price_level :: "OMEOrderBook \<Rightarrow> Side \<Rightarrow> Price \<Rightarrow> error + OMEOrderBook" where
  "remove_price_level b side price =
     (let best_orders_by_price = best_of_side b side in
      case get_level_for_price b price of
        None \<Rightarrow> Inl NullDeref
      | Some oap \<Rightarrow>
          (case
             (if l_next (level_at b oap) = Some oap then Inr (set_best_of_side b side None)
              else
                (case l_prev (level_at b oap) of
                   None \<Rightarrow> Inl NullDeref
                 | Some p \<Rightarrow>
                     let b1 = upd_level b p (\<lambda>l. l\<lparr>l_next := l_next (level_at b oap)\<rparr>) in
                     (case l_next (level_at b1 oap) of
                        None \<Rightarrow> Inl NullDeref
                      | Some n \<Rightarrow>
                          let b2 = upd_level b1 n (\<lambda>l. l\<lparr>l_prev := l_prev (level_at b1 oap)\<rparr>);
                              b3 = (if Some oap = best_orders_by_price
                                    then set_best_of_side b2 side (l_next (level_at b2 oap))
                                    else b2)
                          in Inr (upd_level b3 oap (\<lambda>l. l\<lparr>l_prev := None, l_next := None\<rparr>)))))
           of
             Inl e \<Rightarrow> Inl e
           | Inr b4 \<Rightarrow>
               let b5 = b4\<lparr>map_price_to_price_level :=
                           (map_price_to_price_level b4)(price_to_index price := None)\<rparr>
               in
               (case deallocate (orders_at_price_pool b5) oap of
                  Inl e \<Rightarrow> Inl e
                | Inr pool \<Rightarrow> Inr (b5\<lparr>orders_at_price_pool := pool\<rparr>))))"

subsection \<open>add_order_to_book and remove_order_from_book\<close>

text \<open>\<open>map_client_id_to_order.at(client_id).at(client_order_id) = p\<close>; \<open>at\<close> throws
  \<open>std::out_of_range\<close>, which ends the process in these \<open>noexcept\<close> functions.\<close>

definition set_client_order :: "OMEOrderBook \<Rightarrow> ClientID \<Rightarrow> OrderID \<Rightarrow> nat option \<Rightarrow> error + OMEOrderBook" where
  "set_client_order b client_id client_order_id p =
     (if \<not> unat client_id < MAX_N_CLIENTS then Inl OutOfRange
      else if \<not> unat client_order_id < MAX_ORDER_IDS then Inl OutOfRange
      else Inr (b\<lparr>map_client_id_to_order :=
                  (map_client_id_to_order b)(unat client_id :=
                     (map_client_id_to_order b (unat client_id))(unat client_order_id := p))\<rparr>))"

definition add_order_to_book :: "OMEOrderBook \<Rightarrow> nat \<Rightarrow> (error + OMEOrderBook) option" where
  "add_order_to_book b order =
     (case
        (case get_level_for_price b (o_price (order_at b order)) of
           None \<Rightarrow>
             let b1 = upd_order b order (\<lambda>x. x\<lparr>o_prev := Some order, o_next := Some order\<rparr>) in
             (case allocate (orders_at_price_pool b1)
                     \<lparr>l_side = o_side (order_at b1 order), l_price = o_price (order_at b1 order),
                      l_order_0 = Some order, l_prev = None, l_next = None\<rparr> of
                Inl e \<Rightarrow> Some (Inl e)
              | Inr (new_price_level, pool) \<Rightarrow>
                  add_price_level (b1\<lparr>orders_at_price_pool := pool\<rparr>) new_price_level)
         | Some price_level \<Rightarrow>
             Some
             (case l_order_0 (level_at b price_level) of
                None \<Rightarrow> Inl NullDeref
              | Some first_order \<Rightarrow>
                  (case o_prev (order_at b first_order) of
                     None \<Rightarrow> Inl NullDeref
                   | Some last_order \<Rightarrow>
                       let b1 = upd_order b last_order (\<lambda>x. x\<lparr>o_next := Some order\<rparr>);
                           b2 = upd_order b1 order (\<lambda>x. x\<lparr>o_prev := o_prev (order_at b1 first_order)\<rparr>);
                           b3 = upd_order b2 order (\<lambda>x. x\<lparr>o_next := Some first_order\<rparr>);
                           b4 = upd_order b3 first_order (\<lambda>x. x\<lparr>o_prev := Some order\<rparr>)
                       in Inr b4)))
      of
        None \<Rightarrow> None
      | Some (Inl e) \<Rightarrow> Some (Inl e)
      | Some (Inr b') \<Rightarrow>
          Some (set_client_order b' (o_client_id (order_at b' order))
                  (o_client_order_id (order_at b' order)) (Some order)))"

definition remove_order_from_book :: "OMEOrderBook \<Rightarrow> nat \<Rightarrow> error + OMEOrderBook" where
  "remove_order_from_book b order =
     (let orders_at_price = get_level_for_price b (o_price (order_at b order)) in
      case
        (if o_prev (order_at b order) = Some order
         then remove_price_level b (o_side (order_at b order)) (o_price (order_at b order))
         else
           (case o_prev (order_at b order) of
              None \<Rightarrow> Inl NullDeref
            | Some order_before \<Rightarrow>
                (case o_next (order_at b order) of
                   None \<Rightarrow> Inl NullDeref
                 | Some order_after \<Rightarrow>
                     let b1 = upd_order b order_before (\<lambda>x. x\<lparr>o_next := Some order_after\<rparr>);
                         b2 = upd_order b1 order_after (\<lambda>x. x\<lparr>o_prev := Some order_before\<rparr>)
                     in
                     (case orders_at_price of
                        None \<Rightarrow> Inl NullDeref
                      | Some oap \<Rightarrow>
                          let b3 = (if l_order_0 (level_at b2 oap) = Some order
                                    then upd_level b2 oap (\<lambda>l. l\<lparr>l_order_0 := Some order_after\<rparr>)
                                    else b2)
                          in Inr (upd_order b3 order (\<lambda>x. x\<lparr>o_prev := None, o_next := None\<rparr>))))))
      of
        Inl e \<Rightarrow> Inl e
      | Inr b4 \<Rightarrow>
          (case set_client_order b4 (o_client_id (order_at b4 order))
                  (o_client_order_id (order_at b4 order)) None of
             Inl e \<Rightarrow> Inl e
           | Inr b5 \<Rightarrow>
               (case deallocate (order_pool b5) order of
                  Inl e \<Rightarrow> Inl e
                | Inr pool \<Rightarrow> Inr (b5\<lparr>order_pool := pool\<rparr>))))"

subsection \<open>match and find_match\<close>

definition match ::
  "OMEOrderBook \<Rightarrow> TickerID \<Rightarrow> ClientID \<Rightarrow> Side \<Rightarrow> OrderID \<Rightarrow> OrderID \<Rightarrow> nat \<Rightarrow> Qty
     \<Rightarrow> error + (OMEOrderBook \<times> Qty)" where
  "match b ticker_id client_id side client_oid new_market_oid order qty_remains0 =
     (let order_qty = o_qty (order_at b order);
          fill_qty = min qty_remains0 order_qty;
          qty_remains = qty_remains0 - fill_qty;
          b1 = upd_order b order (\<lambda>x. x\<lparr>o_qty := o_qty x - fill_qty\<rparr>);
          b2 = send_client_response (b1\<lparr>client_response :=
                 \<lparr>resp_type = FILLED, resp_client_id = client_id, resp_ticker_id = ticker_id,
                  resp_client_order_id = client_oid, resp_market_order_id = new_market_oid,
                  resp_side = side, resp_price = o_price (order_at b1 order),
                  resp_qty_exec = fill_qty, resp_qty_remain = qty_remains\<rparr>\<rparr>);
          b3 = send_client_response (b2\<lparr>client_response :=
                 \<lparr>resp_type = FILLED, resp_client_id = o_client_id (order_at b2 order),
                  resp_ticker_id = ticker_id,
                  resp_client_order_id = o_client_order_id (order_at b2 order),
                  resp_market_order_id = o_market_order_id (order_at b2 order),
                  resp_side = o_side (order_at b2 order), resp_price = o_price (order_at b2 order),
                  resp_qty_exec = fill_qty, resp_qty_remain = o_qty (order_at b2 order)\<rparr>\<rparr>);
          b4 = send_market_update (b3\<lparr>market_update :=
                 \<lparr>upd_type = TRADE, upd_order_id = OrderID_INVALID, upd_ticker_id = ticker_id,
                  upd_side = side, upd_price = o_price (order_at b3 order), upd_qty = fill_qty,
                  upd_priority = Priority_INVALID\<rparr>\<rparr>)
      in
      if o_qty (order_at b4 order) = 0 then
        let b5 = send_market_update (b4\<lparr>market_update :=
                   \<lparr>upd_type = Update_CANCEL, upd_order_id = o_market_order_id (order_at b4 order),
                    upd_ticker_id = ticker_id, upd_side = o_side (order_at b4 order),
                    upd_price = o_price (order_at b4 order), upd_qty = order_qty,
                    upd_priority = Priority_INVALID\<rparr>\<rparr>)
        in
        (case remove_order_from_book b5 order of
           Inl e \<Rightarrow> Inl e
         | Inr b6 \<Rightarrow> Inr (b6, qty_remains))
      else
        Inr (send_market_update (b4\<lparr>market_update :=
               \<lparr>upd_type = MODIFY, upd_order_id = o_market_order_id (order_at b4 order),
                upd_ticker_id = ticker_id, upd_side = o_side (order_at b4 order),
                upd_price = o_price (order_at b4 order), upd_qty = o_qty (order_at b4 order),
                upd_priority = o_priority (order_at b4 order)\<rparr>\<rparr>),
             qty_remains))"


subsection \<open>Termination of the matching loop\<close>

text \<open>
  Every iteration of the loops of \<open>find_match\<close> calls \<open>match\<close>, which either lowers the
  remaining quantity or leaves it as it is and returns a block to the order pool.
\<close>

lemma order_pool_upd_order_is_free [simp]:
  "is_free (blocks (order_pool (upd_order b p f)) i) = is_free (blocks (order_pool b) i)"
  by (simp add: upd_order_def)

lemma order_pool_upd_order_n [simp]: "n_blocks (order_pool (upd_order b p f)) = n_blocks (order_pool b)"
  by (simp add: upd_order_def)

lemma order_pool_upd_order_free [simp]:
  "get_n_blocks_free (order_pool (upd_order b p f)) = get_n_blocks_free (order_pool b)"
  by (simp add: get_n_blocks_free_def)

lemma order_pool_upd_level [simp]: "order_pool (upd_level b p f) = order_pool b"
  by (simp add: upd_level_def)

lemma order_pool_set_best_of_side [simp]: "order_pool (set_best_of_side b s p) = order_pool b"
  by (simp add: set_best_of_side_def)

lemma order_pool_remove_price_level:
  "remove_price_level b s p = Inr b' \<Longrightarrow> order_pool b' = order_pool b"
  by (auto simp: remove_price_level_def Let_def split: option.splits sum.splits if_splits)

lemma order_pool_set_client_order:
  "set_client_order b c oid p = Inr b' \<Longrightarrow> order_pool b' = order_pool b"
  by (auto simp: set_client_order_def split: if_splits)

lemma deallocate_used:
  assumes "deallocate p i = Inr p'"
  shows "n_blocks p' = n_blocks p \<and> get_n_blocks_free p' = get_n_blocks_free p + 1"
proof -
  from assms have i: "i < n_blocks p" "\<not> is_free (blocks p i)"
    and p': "p' = p\<lparr>blocks := (blocks p)(i := (blocks p i)\<lparr>is_free := True\<rparr>)\<rparr>"
    by (auto simp: deallocate_def split: if_splits)
  show ?thesis using free_mark_free[OF i] by (simp add: p')
qed

lemma remove_order_from_book_used:
  assumes "remove_order_from_book b order = Inr b'"
  shows "get_n_blocks_used (order_pool b') < get_n_blocks_used (order_pool b)"
proof -
  have "get_n_blocks_free (order_pool b') = get_n_blocks_free (order_pool b) + 1 \<and>
        n_blocks (order_pool b') = n_blocks (order_pool b)"
    using assms
    by (auto simp: remove_order_from_book_def Let_def
        split: option.splits sum.splits if_splits
        dest!: order_pool_remove_price_level order_pool_set_client_order deallocate_used)
  with free_le[of "order_pool b'"] show ?thesis by (simp add: get_n_blocks_used_def)
qed

lemma order_pool_upd_order_used [simp]:
  "get_n_blocks_used (order_pool (upd_order b p f)) = get_n_blocks_used (order_pool b)"
  by (simp add: get_n_blocks_used_def)

lemma order_pool_send_client_response [simp]: "order_pool (send_client_response b) = order_pool b"
  by (simp add: send_client_response_def)

lemma order_pool_send_market_update [simp]: "order_pool (send_market_update b) = order_pool b"
  by (simp add: send_market_update_def)

lemma order_pool_upd_order_other [simp]:
  "order_pool (upd_order b p f\<lparr>client_response := r\<rparr>) = order_pool (upd_order b p f)"
  "order_pool (upd_order b p f\<lparr>market_update := u\<rparr>) = order_pool (upd_order b p f)"
  by simp_all

lemma match_removes:
  assumes "match b ticker_id client_id side client_oid new_market_oid order qty_remains = Inr (b', qty_remains')"
    and "o_qty (order_at b order) \<le> qty_remains"
  shows "get_n_blocks_used (order_pool b') < get_n_blocks_used (order_pool b)"
proof -
  have z: "o_qty (order_at (upd_order b order (\<lambda>x. x\<lparr>o_qty := o_qty x - min qty_remains (o_qty (order_at b order))\<rparr>)) order) = 0"
    using assms(2) by (simp add: order_at_def upd_order_def min_def)
  have q: "\<And>b r u. order_at (b\<lparr>client_response := r\<rparr>) = order_at b"
    "\<And>b u. order_at (b\<lparr>market_update := u\<rparr>) = order_at b"
    "\<And>b. order_at (send_client_response b) = order_at b"
    "\<And>b. order_at (send_market_update b) = order_at b"
    by (simp_all add: order_at_def fun_eq_iff)
  from assms(1) obtain b5 where r: "remove_order_from_book b5 order = Inr b'"
    and p: "get_n_blocks_used (order_pool b5) = get_n_blocks_used (order_pool b)"
    unfolding match_def Let_def q z
    by (simp split: sum.splits)
  from remove_order_from_book_used[OF r] p show ?thesis by simp
qed

lemma match_qty_remains:
  assumes "match b ticker_id client_id side client_oid new_market_oid order qty_remains = Inr (b', qty_remains')"
  shows "qty_remains' = qty_remains - min qty_remains (o_qty (order_at b order))"
  using assms by (auto simp: match_def Let_def split: if_splits sum.splits)

lemma match_progress:
  assumes "match b ticker_id client_id side client_oid new_market_oid order qty_remains = Inr (b', qty_remains')"
    and "qty_remains \<noteq> 0"
  shows "unat qty_remains' < unat qty_remains \<or>
         (qty_remains' = qty_remains \<and>
          get_n_blocks_used (order_pool b') < get_n_blocks_used (order_pool b))"
proof -
  define fill where "fill = min qty_remains (o_qty (order_at b order))"
  have q': "qty_remains' = qty_remains - fill"
    using match_qty_remains[OF assms(1)] by (simp add: fill_def)
  have le: "fill \<le> qty_remains" by (simp add: fill_def)
  show ?thesis
  proof (cases "fill = 0")
    case False
    then have "unat fill \<noteq> 0" by (simp add: unat_eq_0)
    moreover have "unat (qty_remains - fill) = unat qty_remains - unat fill"
      using le by (simp add: unat_sub)
    moreover have "unat fill \<le> unat qty_remains" using le by (simp add: word_le_nat_alt)
    ultimately show ?thesis using q' by simp
  next
    case True
    with assms(2) have "o_qty (order_at b order) \<le> qty_remains"
      by (auto simp: fill_def min_def split: if_splits)
    from match_removes[OF assms(1) this] q' True show ?thesis by simp
  qed
qed

text \<open>
  The two \<open>while\<close> loops of \<open>find_match\<close> differ only in the side they read and in the
  comparison of the prices; \<open>side\<close> selects between them.
\<close>

function find_match_loop ::
  "OMEOrderBook \<Rightarrow> ClientID \<Rightarrow> OrderID \<Rightarrow> TickerID \<Rightarrow> Side \<Rightarrow> Price \<Rightarrow> Qty \<Rightarrow> OrderID
     \<Rightarrow> error + (OMEOrderBook \<times> Qty)" where
  "find_match_loop b client_id client_oid ticker_id side price qty_remains new_market_oid =
     (if qty_remains = 0 then Inr (b, qty_remains)
      else
        case (if side = BUY then asks_by_price b else bids_by_price b) of
          None \<Rightarrow> Inr (b, qty_remains)
        | Some best \<Rightarrow>
            (case l_order_0 (level_at b best) of
               None \<Rightarrow> Inl NullDeref
             | Some order \<Rightarrow>
                 if (if side = BUY then price < o_price (order_at b order)
                     else price > o_price (order_at b order))
                 then Inr (b, qty_remains)
                 else
                   (case match b ticker_id client_id side client_oid new_market_oid order qty_remains of
                      Inl e \<Rightarrow> Inl e
                    | Inr (b', qty_remains') \<Rightarrow>
                        find_match_loop b' client_id client_oid ticker_id side price qty_remains'
                          new_market_oid)))"
  by pat_completeness auto
termination
proof (relation "measures [\<lambda>(b, c, coid, t, s, p, q, m). unat q,
                            \<lambda>(b, c, coid, t, s, p, q, m). get_n_blocks_used (order_pool b)]",
       goal_cases)
  case 1
  show ?case by simp
next
  case (2 b client_id client_oid ticker_id side price qty_remains new_market_oid best order r b' qty_remains')
  then have "match b ticker_id client_id side client_oid new_market_oid order qty_remains = Inr (b', qty_remains')"
    and "qty_remains \<noteq> 0" by simp_all
  from match_progress[OF this] show ?case by auto
qed

declare find_match_loop.simps [simp del]

definition find_match ::
  "OMEOrderBook \<Rightarrow> ClientID \<Rightarrow> OrderID \<Rightarrow> TickerID \<Rightarrow> Side \<Rightarrow> Price \<Rightarrow> Qty \<Rightarrow> OrderID
     \<Rightarrow> error + (OMEOrderBook \<times> Qty)" where
  "find_match b client_id client_oid ticker_id side price qty new_market_oid =
     (if side = BUY \<or> side = SELL
      then find_match_loop b client_id client_oid ticker_id side price qty new_market_oid
      else Inr (b, qty))"

subsection \<open>add and cancel\<close>

definition add ::
  "OMEOrderBook \<Rightarrow> ClientID \<Rightarrow> OrderID \<Rightarrow> TickerID \<Rightarrow> Side \<Rightarrow> Price \<Rightarrow> Qty
     \<Rightarrow> (error + OMEOrderBook) option" where
  "add b0 client_id client_oid ticker_id side price qty =
     (let (new_market_oid, b1) = get_new_market_order_id b0;
          b2 = send_client_response (b1\<lparr>client_response :=
                 \<lparr>resp_type = ACCEPTED, resp_client_id = client_id, resp_ticker_id = ticker_id,
                  resp_client_order_id = client_oid, resp_market_order_id = new_market_oid,
                  resp_side = side, resp_price = price, resp_qty_exec = 0, resp_qty_remain = qty\<rparr>\<rparr>)
      in
      case find_match b2 client_id client_oid ticker_id side price qty new_market_oid of
        Inl e \<Rightarrow> Some (Inl e)
      | Inr (b3, qty_remains) \<Rightarrow>
          if qty_remains \<noteq> 0 then
            (case get_next_priority b3 price of
               Inl e \<Rightarrow> Some (Inl e)
             | Inr priority \<Rightarrow>
                 (case allocate (order_pool b3)
                         \<lparr>o_ticker_id = ticker_id, o_client_id = client_id,
                          o_client_order_id = client_oid, o_market_order_id = new_market_oid,
                          o_side = side, o_price = price, o_qty = qty_remains,
                          o_priority = priority, o_prev = None, o_next = None\<rparr> of
                    Inl e \<Rightarrow> Some (Inl e)
                  | Inr (order, pool) \<Rightarrow>
                      (case add_order_to_book (b3\<lparr>order_pool := pool\<rparr>) order of
                         None \<Rightarrow> None
                       | Some (Inl e) \<Rightarrow> Some (Inl e)
                       | Some (Inr b4) \<Rightarrow>
                           Some (Inr (send_market_update (b4\<lparr>market_update :=
                             \<lparr>upd_type = ADD, upd_order_id = new_market_oid, upd_ticker_id = ticker_id,
                              upd_side = side, upd_price = price, upd_qty = qty_remains,
                              upd_priority = priority\<rparr>\<rparr>))))))
          else Some (Inr b3))"

definition cancel :: "OMEOrderBook \<Rightarrow> ClientID \<Rightarrow> OrderID \<Rightarrow> TickerID \<Rightarrow> error + OMEOrderBook" where
  "cancel b client_id order_id ticker_id =
     (case
        (if unat client_id < MAX_N_CLIENTS then
           (if unat order_id < MAX_ORDER_IDS
            then Inr (map_client_id_to_order b (unat client_id) (unat order_id))
            else Inl OutOfRange)
         else Inr None)
      of
        Inl e \<Rightarrow> Inl e
      | Inr exchange_order \<Rightarrow>
          (case
             (case exchange_order of
                None \<Rightarrow>
                  Inr (b\<lparr>client_response :=
                    \<lparr>resp_type = CANCEL_REJECTED, resp_client_id = client_id, resp_ticker_id = ticker_id,
                     resp_client_order_id = order_id, resp_market_order_id = OrderID_INVALID,
                     resp_side = Side_INVALID, resp_price = Price_INVALID,
                     resp_qty_exec = Qty_INVALID, resp_qty_remain = Qty_INVALID\<rparr>\<rparr>)
              | Some eo \<Rightarrow>
                  let b1 = b\<lparr>client_response :=
                        \<lparr>resp_type = CANCELLED, resp_client_id = client_id, resp_ticker_id = ticker_id,
                         resp_client_order_id = order_id,
                         resp_market_order_id = o_market_order_id (order_at b eo),
                         resp_side = o_side (order_at b eo), resp_price = o_price (order_at b eo),
                         resp_qty_exec = Qty_INVALID, resp_qty_remain = o_qty (order_at b eo)\<rparr>\<rparr>;
                      b2 = b1\<lparr>market_update :=
                        \<lparr>upd_type = Update_CANCEL, upd_order_id = o_market_order_id (order_at b1 eo),
                         upd_ticker_id = ticker_id, upd_side = o_side (order_at b1 eo),
                         upd_price = o_price (order_at b1 eo), upd_qty = 0,
                         upd_priority = o_priority (order_at b1 eo)\<rparr>\<rparr>
                  in
                  (case remove_order_from_book b2 eo of
                     Inl e \<Rightarrow> Inl e
                   | Inr b3 \<Rightarrow> Inr (send_market_update b3)))
           of
             Inl e \<Rightarrow> Inl e
           | Inr b4 \<Rightarrow> Inr (send_client_response b4)))"

text \<open>
  \<open>OrderMatchingEngine::process_client_request\<close> on the book of the request's ticker, and a
  sequence of requests processed one after the other until one ends the process.
\<close>

definition process_client_request :: "OMEOrderBook \<Rightarrow> OMEClientRequest \<Rightarrow> (error + OMEOrderBook) option" where
  "process_client_request b r =
     (case req_type r of
        NEW \<Rightarrow> add b (req_client_id r) (req_order_id r) (req_ticker_id r) (req_side r) (req_price r) (req_qty r)
      | CANCEL \<Rightarrow> Some (cancel b (req_client_id r) (req_order_id r) (req_ticker_id r))
      | Request_INVALID \<Rightarrow> Some (Inl InvalidRequest))"

fun process_client_requests :: "OMEOrderBook \<Rightarrow> OMEClientRequest list \<Rightarrow> (error + OMEOrderBook) option" where
  "process_client_requests b [] = Some (Inr b)"
| "process_client_requests b (r # rs) =
     (case process_client_request b r of
        None \<Rightarrow> None
      | Some (Inl e) \<Rightarrow> Some (Inl e)
      | Some (Inr b') \<Rightarrow> process_client_requests b' rs)"


section \<open>client/trading/position_manager.h\<close>

text \<open>
  \<open>BBO\<close> of \<open>client/orders/te_order.h\<close>, and \<open>Position\<close>.  The \<open>double\<close> fields are
  modelled as reals: the claims about them concern fills whose prices, quantities and
  quotients are small integers, which \<open>double\<close> represents exactly.  \<open>position\<close> is an
  \<open>int32_t\<close>; its overflow is undefined behaviour and not modelled.  \<open>vwap_open\<close> is the
  array indexed by \<open>side_to_index\<close>.
\<close>

record BBO =
  bid :: Price
  ask :: Price
  bid_qty :: Qty
  ask_qty :: Qty

definition default_BBO :: BBO where
  "default_BBO = \<lparr>bid = Price_INVALID, ask = Price_INVALID, bid_qty = Qty_INVALID, ask_qty = Qty_INVALID\<rparr>"

record Position =
  position :: int
  pnl_real :: real
  pnl_unreal :: real
  pnl_total :: real
  vwap_open :: "nat \<Rightarrow> real"
  volume :: Qty
  bbo :: "BBO option"

definition new_Position :: Position where
  "new_Position = \<lparr>position = 0, pnl_real = 0, pnl_unreal = 0, pnl_total = 0,
     vwap_open = (\<lambda>_. 0), volume = 0, bbo = None\<rparr>"

definition add_fill :: "Position \<Rightarrow> OMEClientResponse \<Rightarrow> Position" where
  "add_fill p0 response =
     (let position_old = position p0;
          i_side = side_to_index (resp_side response);
          i_side_opposite = side_to_index (if resp_side response = BUY then SELL else BUY);
          side_value = side_to_value (resp_side response);
          p1 = p0\<lparr>position := position p0 + sint (resp_qty_exec response) * side_value\<rparr>;
          p2 = p1\<lparr>volume := volume p1 + resp_qty_exec response\<rparr>;
          postion_opened_or_increased = (position_old * side_value \<ge> 0);
          p3 =
            (if postion_opened_or_increased then
               p2\<lparr>vwap_open := (vwap_open p2)(i_side :=
                    vwap_open p2 i_side + real_of_int (resp_price response * uint (resp_qty_exec response)))\<rparr>
             else
               let vwap_opposite = vwap_open p2 i_side_opposite / real_of_int \<bar>position_old\<bar>;
                   q1 = p2\<lparr>vwap_open := (vwap_open p2)(i_side_opposite :=
                          vwap_opposite * real_of_int \<bar>position p2\<bar>)\<rparr>;
                   q2 = q1\<lparr>pnl_real := pnl_real q1 +
                          real_of_int (min (sint (resp_qty_exec response)) \<bar>position_old\<bar> * side_value)
                            * (vwap_opposite - real_of_int (resp_price response))\<rparr>
               in
               if position q2 * position_old < 0 then
                 let q3 = q2\<lparr>vwap_open := (vwap_open q2)(i_side :=
                            real_of_int (resp_price response) * real_of_int \<bar>position q2\<bar>)\<rparr>
                 in q3\<lparr>vwap_open := (vwap_open q3)(i_side_opposite := 0)\<rparr>
               else q2);
          p4 =
            (if position p3 = 0 then
               p3\<lparr>vwap_open := (vwap_open p3)(side_to_index SELL := 0, side_to_index BUY := 0),
                  pnl_unreal := 0\<rparr>
             else if position p3 > 0 then
               p3\<lparr>pnl_unreal :=
                    (real_of_int (resp_price response)
                       - vwap_open p3 (side_to_index BUY) / real_of_int \<bar>position p3\<bar>)
                    * real_of_int \<bar>position p3\<bar>\<rparr>
             else
               p3\<lparr>pnl_unreal :=
                    (vwap_open p3 (side_to_index SELL) / real_of_int \<bar>position p3\<bar>
                       - real_of_int (resp_price response))
                    * real_of_int \<bar>position p3\<bar>\<rparr>)
      in p4\<lparr>pnl_total := pnl_unreal p4 + pnl_real p4\<rparr>)"

text \<open>A \<open>FILLED\<close> response with the three fields \<open>add_fill\<close> reads.\<close>

definition fill_response :: "Side \<Rightarrow> Qty \<Rightarrow> Price \<Rightarrow> OMEClientResponse" where
  "fill_response s q p = default_response\<lparr>resp_type := FILLED, resp_side := s, resp_price := p, resp_qty_exec := q\<rparr>"

section \<open>client/trading/risk_manager.h\<close>

record RiskConf =
  size_max :: Qty
  position_max :: Qty
  loss_max :: real

datatype RiskResult = Risk_INVALID | SIZE_TOO_LARGE | POSITION_TOO_LARGE | LOSS_TOO_LARGE | ALLOWED

text \<open>\<open>Risk::get_trade_risk\<close>; the \<open>Position\<close> the \<open>Risk\<close> points to is an argument.\<close>

definition get_trade_risk :: "Position \<Rightarrow> RiskConf \<Rightarrow> Side \<Rightarrow> Qty \<Rightarrow> RiskResult" where
  "get_trade_risk pos conf side qty =
     (if qty > size_max conf then SIZE_TOO_LARGE
      else if \<bar>position pos + side_to_value side * sint qty\<bar> > sint (position_max conf) then POSITION_TOO_LARGE
      else if pnl_total pos < loss_max conf then LOSS_TOO_LARGE
      else ALLOWED)"

section \<open>client/trading/om_order.h, order_manager.h and order_manager.cpp\<close>

datatype OMOrderState = OM_INVALID | PENDING_NEW | LIVE | PENDING_CANCEL | DEAD

record OMOrder =
  om_ticker :: TickerID
  om_id :: OrderID
  om_side :: Side
  om_price :: Price
  om_qty :: Qty
  om_state :: OMOrderState

definition default_OMOrder :: OMOrder where
  "default_OMOrder = \<lparr>om_ticker = TickerID_INVALID, om_id = OrderID_INVALID, om_side = Side_INVALID,
     om_price = Price_INVALID, om_qty = Qty_INVALID, om_state = OM_INVALID\<rparr>"

text \<open>
  The order manager together with what it reaches through its references: the client id
  and the request queue of the trading engine, and the positions and risk configurations
  of the risk manager (arrays over the tickers).  \<open>ticker_to_order_by_side\<close> is the array
  over tickers of arrays over \<open>side_to_index\<close>.
\<close>

record OrderManager =
  engine_client_id :: ClientID
  engine_tx_requests :: "OMEClientRequest LFQueue"
  risk_positions :: "nat \<Rightarrow> Position"
  risk_confs :: "nat \<Rightarrow> RiskConf"
  ticker_to_order_by_side :: "nat \<Rightarrow> nat \<Rightarrow> OMOrder"
  next_oid :: OrderID

definition send_order_request_to_exchange :: "OrderManager \<Rightarrow> OMEClientRequest \<Rightarrow> OrderManager" where
  "send_order_request_to_exchange om req = om\<lparr>engine_tx_requests := lfq_write (engine_tx_requests om) req\<rparr>"

text \<open>
  \<open>request_new_order\<close>, \<open>request_cancel_order\<close> and \<open>manage_order\<close> take the order by
  reference; the model returns the new value of that order next to the new manager.
\<close>

definition request_new_order ::
  "OrderManager \<Rightarrow> OMOrder \<Rightarrow> TickerID \<Rightarrow> Price \<Rightarrow> Side \<Rightarrow> Qty \<Rightarrow> OMOrder \<times> OrderManager" where
  "request_new_order om order ticker price side qty =
     (let req = \<lparr>req_type = NEW, req_client_id = engine_client_id om, req_ticker_id = ticker,
                 req_order_id = next_oid om, req_side = side, req_price = price, req_qty = qty\<rparr>;
          om1 = send_order_request_to_exchange om req;
          order' = \<lparr>om_ticker = ticker, om_id = next_oid om1, om_side = side, om_price = price,
                    om_qty = qty, om_state = PENDING_NEW\<rparr>
      in (order', om1\<lparr>next_oid := next_oid om1 + 1\<rparr>))"

definition request_cancel_order :: "OrderManager \<Rightarrow> OMOrder \<Rightarrow> OMOrder \<times> OrderManager" where
  "request_cancel_order om order =
     (let req = \<lparr>req_type = CANCEL, req_client_id = engine_client_id om, req_ticker_id = om_ticker order,
                 req_order_id = om_id order, req_side = om_side order, req_price = om_price order,
                 req_qty = om_qty order\<rparr>;
          om1 = send_order_request_to_exchange om req
      in (order\<lparr>om_state := PENDING_CANCEL\<rparr>, om1))"

text \<open>\<open>RiskManager::get_trade_risk\<close>: \<open>risk_by_ticker.at(ticker)\<close> throws for a ticker
  outside the array.\<close>

definition risk_manager_get_trade_risk :: "OrderManager \<Rightarrow> TickerID \<Rightarrow> Side \<Rightarrow> Qty \<Rightarrow> error + RiskResult" where
  "risk_manager_get_trade_risk om ticker side qty =
     (if \<not> unat ticker < MAX_TICKERS then Inl OutOfRange
      else Inr (get_trade_risk (risk_positions om (unat ticker)) (risk_confs om (unat ticker)) side qty))"

definition manage_order ::
  "OrderManager \<Rightarrow> OMOrder \<Rightarrow> TickerID \<Rightarrow> Price \<Rightarrow> Side \<Rightarrow> Qty \<Rightarrow> error + (OMOrder \<times> OrderManager)" where
  "manage_order om order ticker price side qty =
     (case om_state order of
        LIVE \<Rightarrow>
          if om_price order \<noteq> price then Inr (request_cancel_order om order) else Inr (order, om)
      | OM_INVALID \<Rightarrow>
          if price \<noteq> Price_INVALID then
            (case risk_manager_get_trade_risk om ticker side qty of
               Inl e \<Rightarrow> Inl e
             | Inr risk \<Rightarrow>
                 if risk = ALLOWED then Inr (request_new_order om order ticker price side qty)
                 else Inr (order, om))
          else Inr (order, om)
      | DEAD \<Rightarrow>
          if price \<noteq> Price_INVALID then
            (case risk_manager_get_trade_risk om ticker side qty of
               Inl e \<Rightarrow> Inl e
             | Inr risk \<Rightarrow>
                 if risk = ALLOWED then Inr (request_new_order om order ticker price side qty)
                 else Inr (order, om))
          else Inr (order, om)
      | PENDING_NEW \<Rightarrow> Inr (order, om)
      | PENDING_CANCEL \<Rightarrow> Inr (order, om))"

text \<open>
  \<open>manage_orders\<close>.  The source binds the two tracked orders with \<open>auto\<close>, not
  \<open>auto&\<close>: \<open>bid_order\<close> and \<open>ask_order\<close> are copies local to the call, \<open>manage_order\<close>
  updates the copies, and they are dropped when the call returns.  So the orders that
  \<open>manage_order\<close> returns are not stored back into \<open>ticker_to_order_by_side\<close>.
\<close>

definition manage_orders :: "OrderManager \<Rightarrow> TickerID \<Rightarrow> Price \<Rightarrow> Price \<Rightarrow> Qty \<Rightarrow> error + OrderManager" where
  "manage_orders om ticker bid_price ask_price trade_size =
     (if \<not> unat ticker < MAX_TICKERS then Inl OutOfRange
      else
        let bid_order = ticker_to_order_by_side om (unat ticker) (side_to_index BUY) in
        case manage_order om bid_order ticker bid_price BUY trade_size of
          Inl e \<Rightarrow> Inl e
        | Inr (bid_order', om1) \<Rightarrow>
            let ask_order = ticker_to_order_by_side om1 (unat ticker) (side_to_index SELL) in
            (case manage_order om1 ask_order ticker ask_price SELL trade_size of
               Inl e \<Rightarrow> Inl e
             | Inr (ask_order', om2) \<Rightarrow> Inr om2))"

text \<open>\<open>on_order_response\<close>, which binds the tracked order with \<open>auto&\<close>.\<close>

definition on_order_response :: "OrderManager \<Rightarrow> OMEClientResponse \<Rightarrow> error + OrderManager" where
  "on_order_response om response =
     (if \<not> unat (resp_ticker_id response) < MAX_TICKERS then Inl OutOfRange
      else
        let t = unat (resp_ticker_id response);
            i = side_to_index (resp_side response);
            order = ticker_to_order_by_side om t i;
            order' =
              (case resp_type response of
                 ACCEPTED \<Rightarrow> order\<lparr>om_state := LIVE\<rparr>
               | CANCELLED \<Rightarrow> order\<lparr>om_state := DEAD\<rparr>
               | FILLED \<Rightarrow>
                   (let o1 = order\<lparr>om_qty := resp_qty_remain response\<rparr>
                    in if om_qty o1 = 0 then o1\<lparr>om_state := DEAD\<rparr> else o1)
               | CANCEL_REJECTED \<Rightarrow> order
               | Response_INVALID \<Rightarrow> order)
        in Inr (om\<lparr>ticker_to_order_by_side :=
                    (ticker_to_order_by_side om)(t := (ticker_to_order_by_side om t)(i := order'))\<rparr>))"

text \<open>An order manager as the trading engine constructs it, for client \<open>c\<close> and one risk
  configuration for every ticker.\<close>

definition new_OrderManager :: "ClientID \<Rightarrow> RiskConf \<Rightarrow> OrderManager" where
  "new_OrderManager c conf =
     \<lparr>engine_client_id = c,
      engine_tx_requests = new_LFQueue MAX_PENDING_ORDER_REQUESTS default_request,
      risk_positions = (\<lambda>_. new_Position),
      risk_confs = (\<lambda>_. conf),
      ticker_to_order_by_side = (\<lambda>_ _. default_OMOrder),
      next_oid = 1\<rparr>"


section \<open>client/data/market_data_consumer.h and market_data_consumer.cpp\<close>

text \<open>
  \<open>QueuedMarketUpdates\<close> is a \<open>std::map<size_t, OMEMarketUpdate>\<close>: here the list of its
  entries in the order of iteration, that is with strictly increasing keys, which
  \<open>is_std_map\<close> states.  \<open>size_t\<close> is a 64-bit word.
\<close>

type_synonym QueuedMarketUpdates = "(64 word \<times> OMEMarketUpdate) list"

definition is_std_map :: "QueuedMarketUpdates \<Rightarrow> bool" where
  "is_std_map m = sorted_wrt (<) (map fst m)"

text \<open>\<open>m.find(k) != m.end()\<close> and \<open>m[k] = v\<close>.\<close>

definition map_contains :: "QueuedMarketUpdates \<Rightarrow> 64 word \<Rightarrow> bool" where
  "map_contains m k = (k \<in> set (map fst m))"

fun map_assign :: "QueuedMarketUpdates \<Rightarrow> 64 word \<Rightarrow> OMEMarketUpdate \<Rightarrow> QueuedMarketUpdates" where
  "map_assign [] k v = [(k, v)]"
| "map_assign ((k', v') # m) k v =
     (if k < k' then (k, v) # (k', v') # m
      else if k = k' then (k, v) # m
      else (k', v') # map_assign m k v)"

text \<open>
  The consumer.  \<open>snapshot_joined\<close> stands for the snapshot socket being initialised and
  joined to its multicast group (\<open>snapshot_sync_start\<close>) or having left it
  (\<open>leave_group\<close>); the sockets themselves are outside the model.
\<close>

record MarketDataConsumer =
  n_seq_inc_next :: "64 word"
  tx_updates :: "OMEMarketUpdate LFQueue"
  is_in_recovery :: bool
  snapshot_joined :: bool
  queued_incremental_updates :: QueuedMarketUpdates
  queued_snapshot_updates :: QueuedMarketUpdates

definition new_MarketDataConsumer :: MarketDataConsumer where
  "new_MarketDataConsumer =
     \<lparr>n_seq_inc_next = 1, tx_updates = new_LFQueue MAX_MARKET_UPDATES default_update,
      is_in_recovery = False, snapshot_joined = False,
      queued_incremental_updates = [], queued_snapshot_updates = []\<rparr>"

definition is_sentinel :: "OMEMarketUpdate \<Rightarrow> bool" where
  "is_sentinel u = (upd_type u = SNAPSHOT_START \<or> upd_type u = SNAPSHOT_END)"

text \<open>
  The first loop of \<open>snapshot_sync_check\<close>, over the snapshot entries: the result is
  \<open>snapshot_is_complete\<close> and \<open>updates_to_process\<close>.
\<close>

fun check_snapshot_loop ::
  "QueuedMarketUpdates \<Rightarrow> 64 word \<Rightarrow> OMEMarketUpdate list \<Rightarrow> bool \<times> OMEMarketUpdate list" where
  "check_snapshot_loop [] n_seq_snapshot_next updates_to_process = (True, updates_to_process)"
| "check_snapshot_loop ((k, u) # rest) n_seq_snapshot_next updates_to_process =
     (if k \<noteq> n_seq_snapshot_next then (False, updates_to_process)
      else check_snapshot_loop rest (n_seq_snapshot_next + 1)
             (if \<not> is_sentinel u then updates_to_process @ [u] else updates_to_process))"

text \<open>
  The second loop, over the incremental entries; it advances the member \<open>n_seq_inc_next\<close>.
  The result is \<open>incremental_is_complete\<close>, \<open>n_seq_inc_next\<close> and
  \<open>updates_to_process\<close>.
\<close>

fun check_incremental_loop ::
  "QueuedMarketUpdates \<Rightarrow> 64 word \<Rightarrow> OMEMarketUpdate list \<Rightarrow> bool \<times> 64 word \<times> OMEMarketUpdate list" where
  "check_incremental_loop [] next updates_to_process = (True, next, updates_to_process)"
| "check_incremental_loop ((k, u) # rest) next updates_to_process =
     (if k < next then check_incremental_loop rest next updates_to_process
      else if k \<noteq> next then (False, next, updates_to_process)
      else check_incremental_loop rest (next + 1)
             (if \<not> is_sentinel u then updates_to_process @ [u] else updates_to_process))"

definition snapshot_sync_check :: "MarketDataConsumer \<Rightarrow> MarketDataConsumer" where
  "snapshot_sync_check c =
     (if queued_snapshot_updates c = [] then c
      else if upd_type (snd (hd (queued_snapshot_updates c))) \<noteq> SNAPSHOT_START
      then c\<lparr>queued_snapshot_updates := []\<rparr>
      else
        let (snapshot_is_complete, updates1) = check_snapshot_loop (queued_snapshot_updates c) 0 [] in
        if \<not> snapshot_is_complete then c\<lparr>queued_snapshot_updates := []\<rparr>
        else
          let last_snapshot = snd (last (queued_snapshot_updates c)) in
          if upd_type last_snapshot \<noteq> SNAPSHOT_END then c
          else
            let (incremental_is_complete, next, updates2) =
                  check_incremental_loop (queued_incremental_updates c)
                    (upd_order_id last_snapshot + 1) updates1;
                c1 = c\<lparr>n_seq_inc_next := next\<rparr>
            in
            if \<not> incremental_is_complete then c1\<lparr>queued_snapshot_updates := []\<rparr>
            else
              c1\<lparr>tx_updates := lfq_write_all (tx_updates c1) updates2,
                 queued_snapshot_updates := [],
                 queued_incremental_updates := [],
                 is_in_recovery := False,
                 snapshot_joined := False\<rparr>)"

definition queue_update :: "MarketDataConsumer \<Rightarrow> bool \<Rightarrow> 64 word \<Rightarrow> OMEMarketUpdate \<Rightarrow> MarketDataConsumer" where
  "queue_update c is_snapshot n_seq ome_update =
     snapshot_sync_check
       (if is_snapshot then
          let c1 = (if map_contains (queued_snapshot_updates c) n_seq
                    then c\<lparr>queued_snapshot_updates := []\<rparr> else c)
          in c1\<lparr>queued_snapshot_updates := map_assign (queued_snapshot_updates c1) n_seq ome_update\<rparr>
        else
          c\<lparr>queued_incremental_updates := map_assign (queued_incremental_updates c) n_seq ome_update\<rparr>)"

definition snapshot_sync_start :: "MarketDataConsumer \<Rightarrow> MarketDataConsumer" where
  "snapshot_sync_start c =
     c\<lparr>queued_snapshot_updates := [], queued_incremental_updates := [], snapshot_joined := True\<rparr>"

text \<open>
  \<open>rx_callback\<close> for one \<open>MDPMarketUpdate\<close> \<open>{n_seq, ome_update}\<close> read from the snapshot
  socket (\<open>is_snapshot\<close>) or from the incremental socket.
\<close>

definition rx_message :: "MarketDataConsumer \<Rightarrow> bool \<Rightarrow> 64 word \<Rightarrow> OMEMarketUpdate \<Rightarrow> MarketDataConsumer" where
  "rx_message c is_snapshot n_seq ome_update =
     (if is_snapshot \<and> \<not> is_in_recovery c then c
      else
        let already_in_recovery = is_in_recovery c;
            c1 = c\<lparr>is_in_recovery := (already_in_recovery \<or> n_seq \<noteq> n_seq_inc_next c)\<rparr>
        in
        if is_in_recovery c1 then
          queue_update (if \<not> already_in_recovery then snapshot_sync_start c1 else c1)
            is_snapshot n_seq ome_update
        else if \<not> is_snapshot then
          let c2 = c1\<lparr>n_seq_inc_next := n_seq_inc_next c1 + 1\<rparr>
          in c2\<lparr>tx_updates := lfq_write (tx_updates c2) ome_update\<rparr>
        else c1)"

fun rx_messages :: "MarketDataConsumer \<Rightarrow> (bool \<times> 64 word \<times> OMEMarketUpdate) list \<Rightarrow> MarketDataConsumer" where
  "rx_messages c [] = c"
| "rx_messages c ((is_snapshot, n_seq, u) # ms) = rx_messages (rx_message c is_snapshot n_seq u) ms"


section \<open>client/orders/te_order.h\<close>

text \<open>
  The orders and price levels of the client's replica of the book, in the two memory pools
  of \<open>TEOrderBook\<close>; as in the exchange's book a pointer is the index of a pool block.
\<close>

record TEOrder =
  te_id :: OrderID
  te_side :: Side
  te_price :: Price
  te_qty :: Qty
  te_priority :: Priority
  te_prev :: "nat option"
  te_next :: "nat option"

record TEOrdersAtPrice =
  tl_side :: Side
  tl_price :: Price
  tl_order_0 :: "nat option"
  tl_prev :: "nat option"
  tl_next :: "nat option"

definition default_TEOrder :: TEOrder where
  "default_TEOrder = \<lparr>te_id = OrderID_INVALID, te_side = Side_INVALID, te_price = Price_INVALID,
     te_qty = Qty_INVALID, te_priority = Priority_INVALID, te_prev = None, te_next = None\<rparr>"

definition default_TEOrdersAtPrice :: TEOrdersAtPrice where
  "default_TEOrdersAtPrice = \<lparr>tl_side = Side_INVALID, tl_price = Price_INVALID,
     tl_order_0 = None, tl_prev = None, tl_next = None\<rparr>"

section \<open>client/orders/te_order_book.h and te_order_book.cpp\<close>

text \<open>
  The replica.  \<open>id_to_order\<close> is the array of \<open>MAX_ORDER_IDS\<close> pointers.  The pointer
  \<open>engine\<close> is left out: the trading engine's two callbacks read the book's BBO and write
  nothing to the book, and a book has no engine until \<open>set_trading_engine\<close> is called.
\<close>

record TEOrderBook =
  te_ticker :: TickerID
  id_to_order :: "nat \<Rightarrow> nat option"
  te_orders_at_price_pool :: "TEOrdersAtPrice MemPool"
  te_bids_by_price :: "nat option"
  te_asks_by_price :: "nat option"
  te_map_price_to_price_level :: "nat \<Rightarrow> nat option"
  te_order_pool :: "TEOrder MemPool"
  te_bbo :: BBO

definition new_TEOrderBook :: "TickerID \<Rightarrow> TEOrderBook" where
  "new_TEOrderBook ticker =
     \<lparr>te_ticker = ticker,
      id_to_order = (\<lambda>_. None),
      te_orders_at_price_pool = new_MemPool MAX_PRICE_LEVELS default_TEOrdersAtPrice,
      te_bids_by_price = None,
      te_asks_by_price = None,
      te_map_price_to_price_level = (\<lambda>_. None),
      te_order_pool = new_MemPool MAX_ORDER_IDS default_TEOrder,
      te_bbo = default_BBO\<rparr>"

definition te_order_at :: "TEOrderBook \<Rightarrow> nat \<Rightarrow> TEOrder" where
  "te_order_at b p = object (blocks (te_order_pool b) p)"

definition te_level_at :: "TEOrderBook \<Rightarrow> nat \<Rightarrow> TEOrdersAtPrice" where
  "te_level_at b p = object (blocks (te_orders_at_price_pool b) p)"

definition te_upd_order :: "TEOrderBook \<Rightarrow> nat \<Rightarrow> (TEOrder \<Rightarrow> TEOrder) \<Rightarrow> TEOrderBook" where
  "te_upd_order b p f =
     b\<lparr>te_order_pool := (te_order_pool b)\<lparr>blocks :=
         (blocks (te_order_pool b))(p := (blocks (te_order_pool b) p)\<lparr>object := f (te_order_at b p)\<rparr>)\<rparr>\<rparr>"

definition te_upd_level :: "TEOrderBook \<Rightarrow> nat \<Rightarrow> (TEOrdersAtPrice \<Rightarrow> TEOrdersAtPrice) \<Rightarrow> TEOrderBook" where
  "te_upd_level b p f =
     b\<lparr>te_orders_at_price_pool := (te_orders_at_price_pool b)\<lparr>blocks :=
         (blocks (te_orders_at_price_pool b))(p :=
            (blocks (te_orders_at_price_pool b) p)\<lparr>object := f (te_level_at b p)\<rparr>)\<rparr>\<rparr>"

definition te_best_of_side :: "TEOrderBook \<Rightarrow> Side \<Rightarrow> nat option" where
  "te_best_of_side b s = (if s = BUY then te_bids_by_price b else te_asks_by_price b)"

definition te_set_best_of_side :: "TEOrderBook \<Rightarrow> Side \<Rightarrow> nat option \<Rightarrow> TEOrderBook" where
  "te_set_best_of_side b s p =
     (if s = BUY then b\<lparr>te_bids_by_price := p\<rparr> else b\<lparr>te_asks_by_price := p\<rparr>)"

text \<open>\<open>TEOrderBook::price_to_index\<close> has the body of the exchange's \<open>price_to_index\<close>.\<close>

definition te_get_level_for_price :: "TEOrderBook \<Rightarrow> Price \<Rightarrow> nat option" where
  "te_get_level_for_price b price = te_map_price_to_price_level b (price_to_index price)"

subsection \<open>TEOrderBook::add_price_level\<close>

definition te_should_add_after_test :: "TEOrdersAtPrice \<Rightarrow> TEOrdersAtPrice \<Rightarrow> bool" where
  "te_should_add_after_test new target =
     ((tl_side new = SELL \<and> tl_price new > tl_price target) \<or>
      (tl_side new = BUY \<and> tl_price new < tl_price target))"

partial_function (option) te_add_price_level_loop ::
  "TEOrderBook \<Rightarrow> nat \<Rightarrow> nat \<Rightarrow> nat option \<Rightarrow> bool \<Rightarrow> (error + (nat option \<times> bool)) option" where
  "te_add_price_level_loop b new best target should_add_after =
     (if should_add_after \<and> target \<noteq> Some best then
        (case target of
           None \<Rightarrow> Some (Inl NullDeref)
         | Some t \<Rightarrow>
             if te_should_add_after_test (te_level_at b new) (te_level_at b t)
             then te_add_price_level_loop b new best (tl_next (te_level_at b t)) True
             else te_add_price_level_loop b new best target False)
      else Some (Inr (target, should_add_after)))"

declare te_add_price_level_loop.simps [code]

definition te_insert_level_after :: "TEOrderBook \<Rightarrow> nat \<Rightarrow> nat \<Rightarrow> nat option \<Rightarrow> error + TEOrderBook" where
  "te_insert_level_after b new best target0 =
     (let target = (if target0 = Some best then tl_prev (te_level_at b best) else target0) in
      case target of
        None \<Rightarrow> Inl NullDeref
      | Some t \<Rightarrow>
          let b1 = te_upd_level b new (\<lambda>l. l\<lparr>tl_prev := Some t\<rparr>) in
          (case tl_next (te_level_at b1 t) of
             None \<Rightarrow> Inl NullDeref
           | Some tn \<Rightarrow>
               let b2 = te_upd_level b1 tn (\<lambda>l. l\<lparr>tl_prev := Some new\<rparr>);
                   b3 = te_upd_level b2 new (\<lambda>l. l\<lparr>tl_next := tl_next (te_level_at b2 t)\<rparr>);
                   b4 = te_upd_level b3 t (\<lambda>l. l\<lparr>tl_next := Some new\<rparr>)
               in Inr b4))"

definition te_insert_level_before :: "TEOrderBook \<Rightarrow> nat \<Rightarrow> nat \<Rightarrow> nat option \<Rightarrow> error + TEOrderBook" where
  "te_insert_level_before b new best target =
     (case target of
        None \<Rightarrow> Inl NullDeref
      | Some t \<Rightarrow>
          let b1 = te_upd_level b new (\<lambda>l. l\<lparr>tl_prev := tl_prev (te_level_at b t)\<rparr>);
              b2 = te_upd_level b1 new (\<lambda>l. l\<lparr>tl_next := Some t\<rparr>)
          in
          (case tl_prev (te_level_at b2 t) of
             None \<Rightarrow> Inl NullDeref
           | Some tp \<Rightarrow>
               let b3 = te_upd_level b2 tp (\<lambda>l. l\<lparr>tl_next := Some new\<rparr>);
                   b4 = te_upd_level b3 t (\<lambda>l. l\<lparr>tl_prev := Some new\<rparr>);
                   n = te_level_at b4 new;
                   bst = te_level_at b4 best
               in
               if (tl_side n = BUY \<and> tl_price n > tl_price bst) \<or>
                  (tl_side n = SELL \<and> tl_price n < tl_price bst)
               then
                 let b5 = te_upd_level b4 t (\<lambda>l. l\<lparr>tl_next :=
                            (if tl_next (te_level_at b4 t) = Some best then Some new
                             else tl_next (te_level_at b4 t))\<rparr>)
                 in Inr (te_set_best_of_side b5 (tl_side n) (Some new))
               else Inr b4))"

definition te_add_price_level :: "TEOrderBook \<Rightarrow> nat \<Rightarrow> (error + TEOrderBook) option" where
  "te_add_price_level b new =
     (let b0 = b\<lparr>te_map_price_to_price_level :=
                 (te_map_price_to_price_level b)(price_to_index (tl_price (te_level_at b new)) := Some new)\<rparr>;
          side = tl_side (te_level_at b0 new)
      in
      case te_best_of_side b0 side of
        None \<Rightarrow>
          Some (Inr (te_upd_level (te_set_best_of_side b0 side (Some new)) new
                      (\<lambda>l. l\<lparr>tl_prev := Some new, tl_next := Some new\<rparr>)))
      | Some best \<Rightarrow>
          let saa0 = te_should_add_after_test (te_level_at b0 new) (te_level_at b0 best);
              first = (if saa0 then
                         (case tl_next (te_level_at b0 best) of
                            None \<Rightarrow> Inl NullDeref
                          | Some t \<Rightarrow>
                              Inr (Some t, te_should_add_after_test (te_level_at b0 new) (te_level_at b0 t)))
                       else Inr (Some best, saa0))
          in
          (case first of
             Inl e \<Rightarrow> Some (Inl e)
           | Inr (target1, saa1) \<Rightarrow>
               (case te_add_price_level_loop b0 new best target1 saa1 of
                  None \<Rightarrow> None
                | Some (Inl e) \<Rightarrow> Some (Inl e)
                | Some (Inr (target, saa)) \<Rightarrow>
                    Some (if saa then te_insert_level_after b0 new best target
                          else te_insert_level_before b0 new best target))))"

subsection \<open>TEOrderBook::remove_price_level\<close>

definition te_remove_price_level :: "TEOrderBook \<Rightarrow> Side \<Rightarrow> Price \<Rightarrow> error + TEOrderBook" where
  "te_remove_price_level b side price =
     (let best_orders_by_price = te_best_of_side b side in
      case te_get_level_for_price b price of
        None \<Rightarrow> Inl NullDeref
      | Some oap \<Rightarrow>
          (case
             (if tl_next (te_level_at b oap) = Some oap then Inr (te_set_best_of_side b side None)
              else
                (case tl_prev (te_level_at b oap) of
                   None \<Rightarrow> Inl NullDeref
                 | Some p \<Rightarrow>
                     let b1 = te_upd_level b p (\<lambda>l. l\<lparr>tl_next := tl_next (te_level_at b oap)\<rparr>) in
                     (case tl_next (te_level_at b1 oap) of
                        None \<Rightarrow> Inl NullDeref
                      | Some n \<Rightarrow>
                          let b2 = te_upd_level b1 n (\<lambda>l. l\<lparr>tl_prev := tl_prev (te_level_at b1 oap)\<rparr>);
                              b3 = (if Some oap = best_orders_by_price
                                    then te_set_best_of_side b2 side (tl_next (te_level_at b2 oap))
                                    else b2)
                          in Inr (te_upd_level b3 oap (\<lambda>l. l\<lparr>tl_prev := None, tl_next := None\<rparr>)))))
           of
             Inl e \<Rightarrow> Inl e
           | Inr b4 \<Rightarrow>
               let b5 = b4\<lparr>te_map_price_to_price_level :=
                           (te_map_price_to_price_level b4)(price_to_index price := None)\<rparr>
               in
               (case deallocate (te_orders_at_price_pool b5) oap of
                  Inl e \<Rightarrow> Inl e
                | Inr pool \<Rightarrow> Inr (b5\<lparr>te_orders_at_price_pool := pool\<rparr>))))"

subsection \<open>TEOrderBook::add_order and remove_order\<close>

text \<open>\<open>id_to_order.at(id) = p\<close>.\<close>

definition set_id_to_order :: "TEOrderBook \<Rightarrow> OrderID \<Rightarrow> nat option \<Rightarrow> error + TEOrderBook" where
  "set_id_to_order b oid p =
     (if \<not> unat oid < MAX_ORDER_IDS then Inl OutOfRange
      else Inr (b\<lparr>id_to_order := (id_to_order b)(unat oid := p)\<rparr>))"

definition add_order :: "TEOrderBook \<Rightarrow> nat \<Rightarrow> (error + TEOrderBook) option" where
  "add_order b order =
     (case
        (case te_get_level_for_price b (te_price (te_order_at b order)) of
           None \<Rightarrow>
             let b1 = te_upd_order b order (\<lambda>x. x\<lparr>te_next := Some order, te_prev := Some order\<rparr>) in
             (case allocate (te_orders_at_price_pool b1)
                     \<lparr>tl_side = te_side (te_order_at b1 order), tl_price = te_price (te_order_at b1 order),
                      tl_order_0 = Some order, tl_prev = None, tl_next = None\<rparr> of
                Inl e \<Rightarrow> Some (Inl e)
              | Inr (new_price_level, pool) \<Rightarrow>
                  te_add_price_level (b1\<lparr>te_orders_at_price_pool := pool\<rparr>) new_price_level)
         | Some price_level \<Rightarrow>
             Some
             (case tl_order_0 (te_level_at b price_level) of
                None \<Rightarrow> Inl NullDeref
              | Some first_order \<Rightarrow>
                  (case te_prev (te_order_at b first_order) of
                     None \<Rightarrow> Inl NullDeref
                   | Some last_order \<Rightarrow>
                       let b1 = te_upd_order b last_order (\<lambda>x. x\<lparr>te_next := Some order\<rparr>);
                           b2 = te_upd_order b1 order (\<lambda>x. x\<lparr>te_prev := te_prev (te_order_at b1 first_order)\<rparr>);
                           b3 = te_upd_order b2 order (\<lambda>x. x\<lparr>te_next := Some first_order\<rparr>);
                           b4 = te_upd_order b3 first_order (\<lambda>x. x\<lparr>te_prev := Some order\<rparr>)
                       in Inr b4)))
      of
        None \<Rightarrow> None
      | Some (Inl e) \<Rightarrow> Some (Inl e)
      | Some (Inr b') \<Rightarrow> Some (set_id_to_order b' (te_id (te_order_at b' order)) (Some order)))"

definition remove_order :: "TEOrderBook \<Rightarrow> nat \<Rightarrow> error + TEOrderBook" where
  "remove_order b order =
     (let orders_at_price = te_get_level_for_price b (te_price (te_order_at b order)) in
      case
        (if te_prev (te_order_at b order) = Some order
         then te_remove_price_level b (te_side (te_order_at b order)) (te_price (te_order_at b order))
         else
           (case te_prev (te_order_at b order) of
              None \<Rightarrow> Inl NullDeref
            | Some order_before \<Rightarrow>
                (case te_next (te_order_at b order) of
                   None \<Rightarrow> Inl NullDeref
                 | Some order_after \<Rightarrow>
                     let b1 = te_upd_order b order_before (\<lambda>x. x\<lparr>te_next := Some order_after\<rparr>);
                         b2 = te_upd_order b1 order_after (\<lambda>x. x\<lparr>te_prev := Some order_before\<rparr>)
                     in
                     (case orders_at_price of
                        None \<Rightarrow> Inl NullDeref
                      | Some oap \<Rightarrow>
                          let b3 = (if tl_order_0 (te_level_at b2 oap) = Some order
                                    then te_upd_level b2 oap (\<lambda>l. l\<lparr>tl_order_0 := Some order_after\<rparr>)
                                    else b2)
                          in Inr (te_upd_order b3 order (\<lambda>x. x\<lparr>te_prev := None, te_next := None\<rparr>))))))
      of
        Inl e \<Rightarrow> Inl e
      | Inr b4 \<Rightarrow>
          (case set_id_to_order b4 (te_id (te_order_at b4 order)) None of
             Inl e \<Rightarrow> Inl e
           | Inr b5 \<Rightarrow>
               (case deallocate (te_order_pool b5) order of
                  Inl e \<Rightarrow> Inl e
                | Inr pool \<Rightarrow> Inr (b5\<lparr>te_order_pool := pool\<rparr>))))"

subsection \<open>TEOrderBook::clear_entire_book\<close>

text \<open>
  The loop over \<open>id_to_order\<close>, then for each side the loop that frees every level after
  the best one, following \<open>next\<close> until it is back at the best level (\<open>deallocate\<close> leaves
  the object of the block in place, so \<open>next\<close> of a freed level is still its old value).
  On a heap whose levels are not linked in a ring the second loop may not return;
  \<open>deallocate(nullptr)\<close> fails the pool's first assertion.
\<close>

fun clear_orders_loop :: "TEOrderBook \<Rightarrow> nat list \<Rightarrow> error + TEOrderBook" where
  "clear_orders_loop b [] = Inr b"
| "clear_orders_loop b (i # is) =
     (case id_to_order b i of
        None \<Rightarrow> clear_orders_loop b is
      | Some p \<Rightarrow>
          (case deallocate (te_order_pool b) p of
             Inl e \<Rightarrow> Inl e
           | Inr pool \<Rightarrow> clear_orders_loop (b\<lparr>te_order_pool := pool\<rparr>) is))"

partial_function (option) clear_levels_loop ::
  "TEOrderBook \<Rightarrow> nat \<Rightarrow> nat option \<Rightarrow> (error + TEOrderBook) option" where
  "clear_levels_loop b best level =
     (if level = Some best then Some (Inr b)
      else
        (case level of
           None \<Rightarrow> Some (Inl PoolForeignObject)
         | Some l \<Rightarrow>
             (case deallocate (te_orders_at_price_pool b) l of
                Inl e \<Rightarrow> Some (Inl e)
              | Inr pool \<Rightarrow>
                  clear_levels_loop (b\<lparr>te_orders_at_price_pool := pool\<rparr>) best
                    (tl_next (te_level_at (b\<lparr>te_orders_at_price_pool := pool\<rparr>) l)))))"

declare clear_levels_loop.simps [code]

definition clear_side :: "TEOrderBook \<Rightarrow> nat option \<Rightarrow> (error + TEOrderBook) option" where
  "clear_side b best_opt =
     (case best_opt of
        None \<Rightarrow> Some (Inr b)
      | Some best \<Rightarrow>
          (case clear_levels_loop b best (tl_next (te_level_at b best)) of
             None \<Rightarrow> None
           | Some (Inl e) \<Rightarrow> Some (Inl e)
           | Some (Inr b1) \<Rightarrow>
               (case deallocate (te_orders_at_price_pool b1) best of
                  Inl e \<Rightarrow> Some (Inl e)
                | Inr pool \<Rightarrow> Some (Inr (b1\<lparr>te_orders_at_price_pool := pool\<rparr>)))))"

definition clear_entire_book :: "TEOrderBook \<Rightarrow> (error + TEOrderBook) option" where
  "clear_entire_book b =
     (case clear_orders_loop b [0..<MAX_ORDER_IDS] of
        Inl e \<Rightarrow> Some (Inl e)
      | Inr b1 \<Rightarrow>
          let b2 = b1\<lparr>id_to_order := (\<lambda>_. None)\<rparr> in
          (case clear_side b2 (te_bids_by_price b2) of
             None \<Rightarrow> None
           | Some (Inl e) \<Rightarrow> Some (Inl e)
           | Some (Inr b3) \<Rightarrow>
               (case clear_side b3 (te_asks_by_price b3) of
                  None \<Rightarrow> None
                | Some (Inl e) \<Rightarrow> Some (Inl e)
                | Some (Inr b4) \<Rightarrow>
                    Some (Inr (b4\<lparr>te_bids_by_price := None, te_asks_by_price := None\<rparr>)))))"

subsection \<open>TEOrderBook::update_bbo\<close>

text \<open>
  The loop that accumulates the quantities of the orders after \<open>order_0\<close>, following
  \<open>next\<close> until it is back at \<open>order_0\<close>.
\<close>

partial_function (option) bbo_qty_loop ::
  "TEOrderBook \<Rightarrow> nat \<Rightarrow> nat option \<Rightarrow> Qty \<Rightarrow> (error + Qty) option" where
  "bbo_qty_loop b order_0 order acc =
     (if order = Some order_0 then Some (Inr acc)
      else
        (case order of
           None \<Rightarrow> Some (Inl NullDeref)
         | Some p \<Rightarrow>
             bbo_qty_loop b order_0 (te_next (te_order_at b p)) (acc + te_qty (te_order_at b p))))"

declare bbo_qty_loop.simps [code]

text \<open>The price and the accumulated quantity of the best level of one side;
  \<open>(Price_INVALID, Qty_INVALID)\<close> when the side is empty.\<close>

definition bbo_of_side :: "TEOrderBook \<Rightarrow> nat option \<Rightarrow> (error + (Price \<times> Qty)) option" where
  "bbo_of_side b best_opt =
     (case best_opt of
        None \<Rightarrow> Some (Inr (Price_INVALID, Qty_INVALID))
      | Some best \<Rightarrow>
          (case tl_order_0 (te_level_at b best) of
             None \<Rightarrow> Some (Inl NullDeref)
           | Some order_0 \<Rightarrow>
               (case bbo_qty_loop b order_0 (te_next (te_order_at b order_0))
                       (te_qty (te_order_at b order_0)) of
                  None \<Rightarrow> None
                | Some (Inl e) \<Rightarrow> Some (Inl e)
                | Some (Inr q) \<Rightarrow> Some (Inr (tl_price (te_level_at b best), q)))))"

definition update_bbo :: "TEOrderBook \<Rightarrow> bool \<Rightarrow> bool \<Rightarrow> (error + TEOrderBook) option" where
  "update_bbo b should_update_bid should_update_ask =
     (case
        (if should_update_bid then
           (case bbo_of_side b (te_bids_by_price b) of
              None \<Rightarrow> None
            | Some (Inl e) \<Rightarrow> Some (Inl e)
            | Some (Inr (p, q)) \<Rightarrow> Some (Inr (b\<lparr>te_bbo := (te_bbo b)\<lparr>bid := p, bid_qty := q\<rparr>\<rparr>)))
         else Some (Inr b))
      of
        None \<Rightarrow> None
      | Some (Inl e) \<Rightarrow> Some (Inl e)
      | Some (Inr b1) \<Rightarrow>
          (if should_update_ask then
             (case bbo_of_side b1 (te_asks_by_price b1) of
                None \<Rightarrow> None
              | Some (Inl e) \<Rightarrow> Some (Inl e)
              | Some (Inr (p, q)) \<Rightarrow> Some (Inr (b1\<lparr>te_bbo := (te_bbo b1)\<lparr>ask := p, ask_qty := q\<rparr>\<rparr>)))
           else Some (Inr b1)))"

subsection \<open>TEOrderBook::on_market_update\<close>

text \<open>
  The two flags are computed from the book as it is before the update is applied.  A
  \<open>TRADE\<close> update returns before \<open>update_bbo\<close>.
\<close>

definition on_market_update :: "TEOrderBook \<Rightarrow> OMEMarketUpdate \<Rightarrow> (error + TEOrderBook) option" where
  "on_market_update b update =
     (let bid_is_updated =
            (case te_bids_by_price b of
               None \<Rightarrow> False
             | Some l \<Rightarrow> upd_side update = BUY \<and> upd_price update \<ge> tl_price (te_level_at b l));
          ask_is_updated =
            (case te_asks_by_price b of
               None \<Rightarrow> False
             | Some l \<Rightarrow> upd_side update = SELL \<and> upd_price update \<le> tl_price (te_level_at b l))
      in
      if upd_type update = TRADE then Some (Inr b)
      else
        (case
           (case upd_type update of
              ADD \<Rightarrow>
                (case allocate (te_order_pool b)
                        \<lparr>te_id = upd_order_id update, te_side = upd_side update,
                         te_price = upd_price update, te_qty = upd_qty update,
                         te_priority = upd_priority update, te_prev = None, te_next = None\<rparr> of
                   Inl e \<Rightarrow> Some (Inl e)
                 | Inr (order, pool) \<Rightarrow> add_order (b\<lparr>te_order_pool := pool\<rparr>) order)
            | MODIFY \<Rightarrow>
                Some
                (if \<not> unat (upd_order_id update) < MAX_ORDER_IDS then Inl OutOfRange
                 else
                   (case id_to_order b (unat (upd_order_id update)) of
                      None \<Rightarrow> Inl NullDeref
                    | Some order \<Rightarrow> Inr (te_upd_order b order (\<lambda>x. x\<lparr>te_qty := upd_qty update\<rparr>))))
            | Update_CANCEL \<Rightarrow>
                Some
                (if \<not> unat (upd_order_id update) < MAX_ORDER_IDS then Inl OutOfRange
                 else
                   (case id_to_order b (unat (upd_order_id update)) of
                      None \<Rightarrow> Inl NullDeref
                    | Some order \<Rightarrow> remove_order b order))
            | CLEAR \<Rightarrow> clear_entire_book b
            | _ \<Rightarrow> Some (Inr b))
         of
           None \<Rightarrow> None
         | Some (Inl e) \<Rightarrow> Some (Inl e)
         | Some (Inr b1) \<Rightarrow> update_bbo b1 bid_is_updated ask_is_updated))"

text \<open>A sequence of market updates applied to one replica.\<close>

fun on_market_updates :: "TEOrderBook \<Rightarrow> OMEMarketUpdate list \<Rightarrow> (error + TEOrderBook) option" where
  "on_market_updates b [] = Some (Inr b)"
| "on_market_updates b (u # us) =
     (case on_market_update b u of
        None \<Rightarrow> None
      | Some (Inl e) \<Rightarrow> Some (Inl e)
      | Some (Inr b1) \<Rightarrow> on_market_updates b1 us)"

section \<open>States and messages of the scenarios\<close>

text \<open>A market update of type \<open>t\<close> for order id \<open>oid\<close>, and a consumer in recovery that has
  forwarded the incrementals 1 and 2, buffered the incrementals 4 to 7 and a complete
  snapshot whose \<open>SNAPSHOT_END\<close> carries the sequence number 6.\<close>

definition upd :: "UpdateType \<Rightarrow> OrderID \<Rightarrow> OMEMarketUpdate" where
  "upd t oid = default_update\<lparr>upd_type := t, upd_order_id := oid\<rparr>"

definition recovering_consumer :: MarketDataConsumer where
  "recovering_consumer =
     \<lparr>n_seq_inc_next = 3,
      tx_updates = lfq_write_all (new_LFQueue MAX_MARKET_UPDATES default_update) [upd ADD 101, upd ADD 102],
      is_in_recovery = True, snapshot_joined = True,
      queued_incremental_updates = [(4, upd ADD 104), (5, upd ADD 105), (6, upd ADD 106), (7, upd ADD 107)],
      queued_snapshot_updates = [(0, upd SNAPSHOT_START 6), (1, upd CLEAR 0), (2, upd ADD 105), (3, upd SNAPSHOT_END 6)]\<rparr>"


text \<open>An \<open>ADD\<close> market update for ticker 3.\<close>

definition market_add :: "OrderID \<Rightarrow> Side \<Rightarrow> Price \<Rightarrow> Qty \<Rightarrow> Priority \<Rightarrow> OMEMarketUpdate" where
  "market_add oid s p q pr = \<lparr>upd_type = ADD, upd_order_id = oid, upd_ticker_id = 3, upd_side = s,
     upd_price = p, upd_qty = q, upd_priority = pr\<rparr>"


section \<open>Well-formed order rings of the replica\<close>

text \<open>\<open>te_order_path b x os y\<close>: following \<open>next\<close> from the pointer \<open>x\<close> visits the orders \<open>os\<close>
  in this order and arrives at \<open>y\<close>.\<close>

fun te_order_path :: "TEOrderBook \<Rightarrow> nat option \<Rightarrow> nat list \<Rightarrow> nat option \<Rightarrow> bool" where
  "te_order_path b x [] y = (x = y)"
| "te_order_path b x (a # as) y = (x = Some a \<and> te_order_path b (te_next (te_order_at b a)) as y)"





section \<open>Evaluation of small intervals\<close>

lemma upt1: "[0..<1] = [0::nat]" by simp
lemma upt2: "[0..<2] = [0, 1::nat]" by (simp add: numeral_eq_Suc)
lemma upt3: "[0..<3] = [0, 1, 2::nat]" by (simp add: numeral_eq_Suc)
lemma upt4: "[0..<4] = [0, 1, 2, 3::nat]" by (simp add: numeral_eq_Suc)
lemma upt5: "[0..<5] = [0, 1, 2, 3, 4::nat]" by (simp add: numeral_eq_Suc)
lemma upt6: "[0..<6] = [0, 1, 2, 3, 4, 5::nat]" by (simp add: numeral_eq_Suc)

section \<open>Proofs: MemPool\<close>

















section \<open>Proofs: FIFO sequencer\<close>

lemma foldl_lfq_write:
  "foldl (\<lambda>q i. lfq_write q (f i)) q is = lfq_write_all q (map f is)"
  by (induction "is" arbitrary: q) simp_all

lemma sorts_by_t_rx_sort_key: "sorts_by_t_rx (sort_key t_rx)"
  by (simp add: sorts_by_t_rx_def)

text \<open>
  Claim C8.  With \<open>n\<close> pending requests (at most the capacity of the array) and any
  \<open>std::sort\<close> that meets its contract, one call of \<open>sequence_and_publish\<close> writes to the
  matching engine's queue the requests of a permutation \<open>ys\<close> of the pending entries that is
  ordered by nondecreasing \<open>t_rx\<close>, one write per entry and in that order, and resets the count
  to zero; a second call right after it changes nothing, so it writes nothing.
\<close>

theorem sequence_and_publish_sorted_permutation:
  assumes "sorts_by_t_rx srt"
    and "n_pending_requests s \<le> MAX_PENDING_ORDER_REQUESTS"
  shows "\<exists>ys s'. sequence_and_publish srt s = Inr s' \<and>
           mset ys = mset (map (pending_requests s) [0..<n_pending_requests s]) \<and>
           sorted (map t_rx ys) \<and>
           rx_requests s' = lfq_write_all (rx_requests s) (map request ys) \<and>
           n_pending_requests s' = 0 \<and>
           sequence_and_publish srt s' = Inr s'"
proof (cases "n_pending_requests s = 0")
  case True
  then show ?thesis
    by (intro exI[of _ "[]"] exI[of _ s]) (simp add: sequence_and_publish_def)
next
  case False
  define n where "n = n_pending_requests s"
  define ys where "ys = srt (map (pending_requests s) [0..<n])"
  define pending' where "pending' = (\<lambda>i. if i < n then ys ! i else pending_requests s i)"
  define s' where "s' = s\<lparr>rx_requests := lfq_write_all (rx_requests s) (map (\<lambda>i. request (pending' i)) [0..<n]),
     pending_requests := pending', n_pending_requests := 0\<rparr>"
  from assms(1) have perm: "mset ys = mset (map (pending_requests s) [0..<n])"
    and srtd: "sorted (map t_rx ys)"
    by (simp_all add: sorts_by_t_rx_def ys_def)
  from perm have "size (mset ys) = size (mset (map (pending_requests s) [0..<n]))" by simp
  then have len: "length ys = n" by simp
  have "map pending' [0..<n] = ys"
    by (rule nth_equalityI) (simp_all add: len pending'_def)
  moreover have "map (\<lambda>i. request (pending' i)) [0..<n] = map request (map pending' [0..<n])"
    by simp
  ultimately have wr: "map (\<lambda>i. request (pending' i)) [0..<n] = map request ys"
    by simp
  have run: "sequence_and_publish srt s = Inr s'"
    unfolding s'_def pending'_def ys_def n_def
    using False assms(2)
    by (simp add: sequence_and_publish_def Let_def foldl_lfq_write)
  have again: "sequence_and_publish srt s' = Inr s'"
    by (simp add: sequence_and_publish_def s'_def)
  show ?thesis
    using run perm srtd wr again
    by (intro exI[of _ ys] exI[of _ s']) (simp add: s'_def n_def)
qed

text \<open>
  Witness for C8: three pending requests stamped 30, 10 and 20, sorted with insertion sort,
  are written in the order 10, 20, 30.
\<close>

theorem sequence_and_publish_sorted_permutation_witness:
  "\<exists>s'. sequence_and_publish (sort_key t_rx)
        \<lparr>rx_requests = new_LFQueue 4 default_request,
         pending_requests = (\<lambda>_. \<lparr>t_rx = 0, request = default_request\<rparr>)
           (0 := \<lparr>t_rx = 30, request = default_request\<lparr>req_order_id := 3\<rparr>\<rparr>,
            1 := \<lparr>t_rx = 10, request = default_request\<lparr>req_order_id := 1\<rparr>\<rparr>,
            2 := \<lparr>t_rx = 20, request = default_request\<lparr>req_order_id := 2\<rparr>\<rparr>),
         n_pending_requests = 3\<rparr> = Inr s' \<and>
      map req_order_id (lfq_pending (rx_requests s')) = [1, 2, 3] \<and>
      n_pending_requests s' = 0"
proof -
  let ?s = "\<lparr>rx_requests = new_LFQueue 4 default_request,
         pending_requests = (\<lambda>_. \<lparr>t_rx = 0, request = default_request\<rparr>)
           (0 := \<lparr>t_rx = 30, request = default_request\<lparr>req_order_id := 3\<rparr>\<rparr>,
            1 := \<lparr>t_rx = 10, request = default_request\<lparr>req_order_id := 1\<rparr>\<rparr>,
            2 := \<lparr>t_rx = 20, request = default_request\<lparr>req_order_id := 2\<rparr>\<rparr>),
         n_pending_requests = 3\<rparr>"
  have three: "[0..<3] = [0, 1, 2::nat]" by (simp add: numeral_3_eq_3)
  have le: "n_pending_requests ?s \<le> MAX_PENDING_ORDER_REQUESTS"
    by (simp add: MAX_PENDING_ORDER_REQUESTS_def)
  from sequence_and_publish_sorted_permutation[OF sorts_by_t_rx_sort_key le]
  obtain ys :: "PendingClientRequest list" and s' where r: "sequence_and_publish (sort_key t_rx) ?s = Inr s'"
    and z: "n_pending_requests s' = 0" by blast
  from r have m: "map req_order_id (lfq_pending (rx_requests s')) = [1, 2, 3]"
    apply (simp add: sequence_and_publish_def MAX_PENDING_ORDER_REQUESTS_def Let_def three)
    apply (erule subst)
    apply (simp add: lfq_write_def increment_write_index_def get_next_to_write_def new_LFQueue_def
        lfq_pending_def three)
    done
  show ?thesis
    apply (rule exI[of _ s'])
    apply (insert r z m)
    apply (intro conjI)
    apply assumption
    apply assumption
    apply assumption
    done
qed



section \<open>Proofs: market data consumer\<close>

lemma map_upt_shift: "map f [0..<Suc n] = f 0 # map (\<lambda>i. f (Suc i)) [0..<n]"
  by (simp add: map_upt_Suc del: upt_Suc)

lemma check_snapshot_loop_dense:
  "map fst m = map (\<lambda>i. n + of_nat i) [0..<length m] \<Longrightarrow>
   check_snapshot_loop m n acc = (True, acc @ filter (\<lambda>u. \<not> is_sentinel u) (map snd m))"
proof (induction m arbitrary: n acc)
  case Nil
  then show ?case by simp
next
  case (Cons x m)
  obtain k u where x: "x = (k, u)" by (cases x)
  have "map (\<lambda>i. n + of_nat i) [0..<length (x # m)] =
      (n + of_nat 0) # map (\<lambda>i. n + of_nat (Suc i)) [0..<length m]"
    using map_upt_shift[of "\<lambda>i. n + of_nat i" "length m"] by simp
  with Cons.prems have "k # map fst m = (n + of_nat 0) # map (\<lambda>i. n + of_nat (Suc i)) [0..<length m]"
    by (simp add: x)
  then have k: "k = n" and rest: "map fst m = map (\<lambda>i. (n + 1) + of_nat i) [0..<length m]"
    by (simp_all add: add.assoc add.commute)
  from Cons.IH[OF rest] show ?case by (simp add: x k)
qed

lemma check_incremental_loop_skip:
  "\<forall>x \<in> set pre. fst x < next \<Longrightarrow>
   check_incremental_loop (pre @ tail) next acc = check_incremental_loop tail next acc"
  by (induction pre) auto

lemma check_incremental_loop_dense:
  "map fst m = map (\<lambda>i. n + of_nat i) [0..<length m] \<Longrightarrow>
   check_incremental_loop m n acc =
     (True, n + of_nat (length m), acc @ filter (\<lambda>u. \<not> is_sentinel u) (map snd m))"
proof (induction m arbitrary: n acc)
  case Nil
  then show ?case by simp
next
  case (Cons x m)
  obtain k u where x: "x = (k, u)" by (cases x)
  have "map (\<lambda>i. n + of_nat i) [0..<length (x # m)] =
      (n + of_nat 0) # map (\<lambda>i. n + of_nat (Suc i)) [0..<length m]"
    using map_upt_shift[of "\<lambda>i. n + of_nat i" "length m"] by simp
  with Cons.prems have "k # map fst m = (n + of_nat 0) # map (\<lambda>i. n + of_nat (Suc i)) [0..<length m]"
    by (simp add: x)
  then have k: "k = n" and rest: "map fst m = map (\<lambda>i. (n + 1) + of_nat i) [0..<length m]"
    by (simp_all add: add.assoc add.commute)
  from Cons.IH[OF rest] show ?case by (simp add: x k add.assoc add.commute)
qed

lemma filter_ge_sorted:
  "sorted_wrt (<) (map fst (xs :: QueuedMarketUpdates)) \<Longrightarrow>
   filter (\<lambda>x. s \<le> fst x) xs = dropWhile (\<lambda>x. fst x < s) xs"
proof (induction xs)
  case Nil
  then show ?case by simp
next
  case (Cons x xs)
  show ?case
  proof (cases "fst x < s")
    case True
    with Cons show ?thesis by simp
  next
    case False
    with Cons.prems have "\<forall>y \<in> set xs. s \<le> fst y" by fastforce
    then have "filter (\<lambda>x. s \<le> fst x) xs = xs" by simp
    with False show ?thesis by simp
  qed
qed

text \<open>
  Claim C3, as amended.  Let the buffered snapshot be complete (keys dense from 0, first
  entry \<open>SNAPSHOT_START\<close>, last entry \<open>SNAPSHOT_END\<close>), let
  \<open>inc_splice = SNAPSHOT_END.order_id + 1\<close> and let the buffered incrementals with key at least
  \<open>inc_splice\<close> (\<open>tail\<close>) be dense from \<open>inc_splice\<close>.  Then \<open>snapshot_sync_check\<close> writes to
  the trading engine's queue, in this order, the snapshot entries that are not sentinels
  and then the entries of \<open>tail\<close> that are not sentinels, and nothing else; it sets
  \<open>n_seq_inc_next\<close> to \<open>inc_splice\<close> plus the number of entries of \<open>tail\<close>, clears both
  buffers, leaves the snapshot group and returns to \<open>LIVE\<close>.
\<close>

theorem snapshot_sync_check_recovers:
  assumes inc_map: "is_std_map (queued_incremental_updates c)"
    and nonempty: "queued_snapshot_updates c \<noteq> []"
    and dense: "map fst (queued_snapshot_updates c) = map of_nat [0..<length (queued_snapshot_updates c)]"
    and first: "upd_type (snd (hd (queued_snapshot_updates c))) = SNAPSHOT_START"
    and lst: "upd_type (snd (last (queued_snapshot_updates c))) = SNAPSHOT_END"
    and inc_splice: "inc_splice = upd_order_id (snd (last (queued_snapshot_updates c))) + 1"
    and tail: "tail = filter (\<lambda>x. inc_splice \<le> fst x) (queued_incremental_updates c)"
    and tail_dense: "map fst tail = map (\<lambda>i. inc_splice + of_nat i) [0..<length tail]"
  shows "snapshot_sync_check c =
           c\<lparr>n_seq_inc_next := inc_splice + of_nat (length tail),
             tx_updates := lfq_write_all (tx_updates c)
               (filter (\<lambda>u. \<not> is_sentinel u) (map snd (queued_snapshot_updates c)) @
                filter (\<lambda>u. \<not> is_sentinel u) (map snd tail)),
             queued_snapshot_updates := [],
             queued_incremental_updates := [],
             is_in_recovery := False,
             snapshot_joined := False\<rparr>"
proof -
  let ?snap = "queued_snapshot_updates c"
  let ?inc = "queued_incremental_updates c"
  have "map fst ?snap = map (\<lambda>i. 0 + of_nat i) [0..<length ?snap]" using dense by simp
  from check_snapshot_loop_dense[OF this]
  have s1: "check_snapshot_loop ?snap 0 [] = (True, filter (\<lambda>u. \<not> is_sentinel u) (map snd ?snap))"
    by simp
  have tl: "tail = dropWhile (\<lambda>x. fst x < inc_splice) ?inc"
    using inc_map by (simp add: tail is_std_map_def filter_ge_sorted)
  have "?inc = takeWhile (\<lambda>x. fst x < inc_splice) ?inc @ tail" by (simp add: tl)
  moreover have "\<forall>x \<in> set (takeWhile (\<lambda>x. fst x < inc_splice) ?inc). fst x < inc_splice"
    by (auto dest: set_takeWhileD)
  ultimately have "check_incremental_loop ?inc inc_splice (filter (\<lambda>u. \<not> is_sentinel u) (map snd ?snap))
      = check_incremental_loop tail inc_splice (filter (\<lambda>u. \<not> is_sentinel u) (map snd ?snap))"
    using check_incremental_loop_skip by metis
  also have "\<dots> = (True, inc_splice + of_nat (length tail),
      filter (\<lambda>u. \<not> is_sentinel u) (map snd ?snap) @ filter (\<lambda>u. \<not> is_sentinel u) (map snd tail))"
    by (rule check_incremental_loop_dense[OF tail_dense])
  finally have s2: "check_incremental_loop ?inc (upd_order_id (snd (List.last ?snap)) + 1)
      (filter (\<lambda>u. \<not> is_sentinel u) (map snd ?snap)) = (True, inc_splice + of_nat (length tail),
      filter (\<lambda>u. \<not> is_sentinel u) (map snd ?snap) @ filter (\<lambda>u. \<not> is_sentinel u) (map snd tail))"
    by (simp add: inc_splice)
  show ?thesis
    using nonempty first lst by (simp add: snapshot_sync_check_def s1 s2)
qed

text \<open>
  Witness for C3 (scenario S5): with the incrementals 4 to 7 buffered and
  \<open>SNAPSHOT_END.order_id = 6\<close>, the snapshot body and then incremental 7 are forwarded, the
  incrementals 4 to 6 never are.
\<close>

theorem snapshot_sync_check_recovers_witness:
  "map (\<lambda>u. (upd_type u, upd_order_id u)) (lfq_pending (tx_updates (snapshot_sync_check recovering_consumer))) =
     [(ADD, 101), (ADD, 102), (CLEAR, 0), (ADD, 105), (ADD, 107)] \<and>
   n_seq_inc_next (snapshot_sync_check recovering_consumer) = 8 \<and>
   queued_snapshot_updates (snapshot_sync_check recovering_consumer) = [] \<and>
   queued_incremental_updates (snapshot_sync_check recovering_consumer) = [] \<and>
   \<not> is_in_recovery (snapshot_sync_check recovering_consumer) \<and>
   \<not> snapshot_joined (snapshot_sync_check recovering_consumer)"
proof -
  have r: "snapshot_sync_check recovering_consumer =
           recovering_consumer\<lparr>n_seq_inc_next := 7 + of_nat (length [(7 :: 64 word, upd ADD 107)]),
             tx_updates := lfq_write_all (tx_updates recovering_consumer)
               (filter (\<lambda>u. \<not> is_sentinel u) (map snd (queued_snapshot_updates recovering_consumer)) @
                filter (\<lambda>u. \<not> is_sentinel u) (map snd [(7 :: 64 word, upd ADD 107)])),
             queued_snapshot_updates := [],
             queued_incremental_updates := [],
             is_in_recovery := False,
             snapshot_joined := False\<rparr>"
    by (rule snapshot_sync_check_recovers)
       (simp_all add: recovering_consumer_def is_std_map_def upd_def default_update_def upt4 upt1)
  show ?thesis
    unfolding r
    by (simp add: recovering_consumer_def upd_def default_update_def is_sentinel_def
        lfq_pending_def lfq_write_def increment_write_index_def get_next_to_write_def new_LFQueue_def
        MAX_MARKET_UPDATES_def OME_SIZE_def upt5 upt2)
qed

text \<open>
  Claim C3 as stated fails where a buffered incremental is itself of type \<open>SNAPSHOT_START\<close>
  or \<open>SNAPSHOT_END\<close>: with \<open>inc_splice = 7\<close> and the only buffered incremental at key 7 of
  type \<open>SNAPSHOT_START\<close>, recovery completes and nothing is forwarded.
\<close>

theorem snapshot_sync_check_sentinel_counterexample:
  "lfq_pending (tx_updates (snapshot_sync_check
     \<lparr>n_seq_inc_next = 3,
      tx_updates = new_LFQueue MAX_MARKET_UPDATES default_update,
      is_in_recovery = True, snapshot_joined = True,
      queued_incremental_updates = [(7, upd SNAPSHOT_START 0)],
      queued_snapshot_updates = [(0, upd SNAPSHOT_START 6), (1, upd SNAPSHOT_END 6)]\<rparr>)) = [] \<and>
   \<not> is_in_recovery (snapshot_sync_check
     \<lparr>n_seq_inc_next = 3,
      tx_updates = new_LFQueue MAX_MARKET_UPDATES default_update,
      is_in_recovery = True, snapshot_joined = True,
      queued_incremental_updates = [(7, upd SNAPSHOT_START 0)],
      queued_snapshot_updates = [(0, upd SNAPSHOT_START 6), (1, upd SNAPSHOT_END 6)]\<rparr>)"
  by (simp add: snapshot_sync_check_def upd_def default_update_def is_sentinel_def
        lfq_pending_def new_LFQueue_def)

text \<open>Scenario S5 from the first message on: incremental 3 is lost, recovery starts at
  incremental 4 and ends at \<open>SNAPSHOT_END\<close>; incremental 7 then arrives in \<open>LIVE\<close>.\<close>

lemma s5_scenario:
  "map (\<lambda>u. (upd_type u, upd_order_id u)) (lfq_pending (tx_updates (rx_messages new_MarketDataConsumer
     [(False, 1, upd ADD 101), (False, 2, upd ADD 102), (False, 4, upd ADD 104),
      (True, 0, upd SNAPSHOT_START 6), (True, 1, upd CLEAR 0), (True, 2, upd ADD 105),
      (True, 3, upd SNAPSHOT_END 6), (False, 7, upd ADD 107)]))) =
   [(ADD, 101), (ADD, 102), (CLEAR, 0), (ADD, 105), (ADD, 107)]"
  by (simp add: rx_message_def queue_update_def snapshot_sync_start_def snapshot_sync_check_def
        new_MarketDataConsumer_def map_contains_def
        upd_def default_update_def is_sentinel_def Let_def
        lfq_pending_def lfq_write_def increment_write_index_def get_next_to_write_def new_LFQueue_def
        MAX_MARKET_UPDATES_def OME_SIZE_def upt5 upt2)


section \<open>Proofs: position and order management\<close>


text \<open>
  Claim C4 (scenario S6).  From a flat position, the fills \<open>BUY 10@100\<close>, \<open>BUY 10@90\<close>,
  \<open>SELL 10@92\<close>, \<open>SELL 20@97\<close> give position \<open>-10\<close>, \<open>vwap_open[BUY] = 0\<close>, realized PnL
  \<open>-10\<close>, unrealized PnL 0 and total PnL \<open>-10\<close>.  The last fill flips the sign of the
  position (from 10 to \<open>-10\<close>), and \<open>vwap_open\<close> on its side is the price times the absolute
  new position while the opposite side is zero.
\<close>

theorem position_sign_flip_scenario:
  "(let p3 = add_fill (add_fill (add_fill new_Position (fill_response BUY 10 100))
                          (fill_response BUY 10 90)) (fill_response SELL 10 92);
        p4 = add_fill p3 (fill_response SELL 20 97)
    in position p3 = 10 \<and> position p4 = - 10 \<and>
       vwap_open p4 (side_to_index BUY) = 0 \<and>
       vwap_open p4 (side_to_index SELL) = 97 * real_of_int \<bar>position p4\<bar> \<and>
       pnl_real p4 = - 10 \<and> pnl_unreal p4 = 0 \<and> pnl_total p4 = - 10)"
  by (simp add: add_fill_def new_Position_def fill_response_def default_response_def Let_def)

text \<open>
  Claim C6 fails on the code.  On a fresh order manager whose risk limits allow the order,
  \<open>manage_orders(4, 100, 101, 10)\<close> sends a \<open>NEW\<close> request for each side, yet both tracked
  orders are still in state \<open>INVALID\<close> afterwards, and the same call again sends two further
  \<open>NEW\<close> requests (order ids 3 and 4).
\<close>

theorem manage_orders_resends_new:
  "(case manage_orders (new_OrderManager 1 \<lparr>size_max = 1000, position_max = 1000, loss_max = - 1000\<rparr>)
          4 100 101 10 of
      Inl e \<Rightarrow> None
    | Inr om1 \<Rightarrow>
        (case manage_orders om1 4 100 101 10 of
           Inl e \<Rightarrow> None
         | Inr om2 \<Rightarrow>
             Some (om_state (ticker_to_order_by_side om1 4 (side_to_index BUY)),
                   om_state (ticker_to_order_by_side om1 4 (side_to_index SELL)),
                   map (\<lambda>r. (req_type r, req_order_id r, req_side r)) (lfq_pending (engine_tx_requests om1)),
                   map (\<lambda>r. (req_type r, req_order_id r, req_side r)) (lfq_pending (engine_tx_requests om2)))))
   = Some (OM_INVALID, OM_INVALID,
           [(NEW, 1, BUY), (NEW, 2, SELL)],
           [(NEW, 1, BUY), (NEW, 2, SELL), (NEW, 3, BUY), (NEW, 4, SELL)])"
  by (simp add: manage_orders_def manage_order_def request_new_order_def
      send_order_request_to_exchange_def risk_manager_get_trade_risk_def get_trade_risk_def
      new_OrderManager_def new_Position_def default_OMOrder_def MAX_TICKERS_def Price_INVALID_def
      lfq_pending_def lfq_write_def increment_write_index_def get_next_to_write_def new_LFQueue_def
      MAX_PENDING_ORDER_REQUESTS_def Let_def upt2 upt4)

text \<open>The reason: no call of \<open>manage_orders\<close> ever changes a tracked order.\<close>


lemma request_keeps_tracked_orders [simp]:
  "ticker_to_order_by_side (snd (request_new_order om order ticker price side qty)) = ticker_to_order_by_side om"
  "ticker_to_order_by_side (snd (request_cancel_order om order)) = ticker_to_order_by_side om"
  by (simp_all add: request_new_order_def request_cancel_order_def send_order_request_to_exchange_def Let_def)

lemma manage_order_keeps_tracked_orders:
  assumes "manage_order om order ticker price side qty = Inr (order', om')"
  shows "ticker_to_order_by_side om' = ticker_to_order_by_side om"
proof (cases "om_state order")
  case OM_INVALID
  with assms show ?thesis
    by (auto simp: manage_order_def split: if_splits sum.splits)
       (metis request_keeps_tracked_orders(1) snd_conv)
next
  case PENDING_NEW
  with assms show ?thesis by (simp add: manage_order_def)
next
  case LIVE
  with assms show ?thesis
    by (auto simp: manage_order_def split: if_splits)
       (metis request_keeps_tracked_orders(2) snd_conv)
next
  case PENDING_CANCEL
  with assms show ?thesis by (simp add: manage_order_def)
next
  case DEAD
  with assms show ?thesis
    by (auto simp: manage_order_def split: if_splits sum.splits)
       (metis request_keeps_tracked_orders(1) snd_conv)
qed

lemma manage_orders_keeps_tracked_orders:
  assumes "manage_orders om ticker bid_price ask_price trade_size = Inr om'"
  shows "ticker_to_order_by_side om' = ticker_to_order_by_side om"
proof -
  from assms obtain o1 om1 o2 where
    a: "manage_order om (ticker_to_order_by_side om (unat ticker) (side_to_index BUY)) ticker bid_price BUY trade_size = Inr (o1, om1)"
    and b: "manage_order om1 (ticker_to_order_by_side om1 (unat ticker) (side_to_index SELL)) ticker ask_price SELL trade_size = Inr (o2, om')"
    by (auto simp: manage_orders_def Let_def split: if_splits sum.splits)
  from manage_order_keeps_tracked_orders[OF a] manage_order_keeps_tracked_orders[OF b]
  show ?thesis by simp
qed


section \<open>Proofs: the client replica of the book\<close>

lemmas te_defs = on_market_update_def add_order_def remove_order_def te_add_price_level_def
  te_add_price_level_loop.simps te_insert_level_after_def te_insert_level_before_def
  te_remove_price_level_def set_id_to_order_def update_bbo_def bbo_of_side_def bbo_qty_loop.simps
  te_get_level_for_price_def price_to_index_def te_best_of_side_def te_set_best_of_side_def
  te_upd_order_def te_upd_level_def te_order_at_def te_level_at_def new_TEOrderBook_def
  allocate_def deallocate_def update_next_free_index_def update_next_free_index_loop.simps
  new_MemPool_def te_should_add_after_test_def MAX_PRICE_LEVELS_def MAX_ORDER_IDS_def OME_SIZE_def
  Let_def

text \<open>
  Claim C5 fails on the code.  \<open>on_market_update\<close> decides which side of the BBO to
  recompute from the book as it is before the update is applied, and an empty side never
  qualifies.  On a fresh replica the update \<open>ADD\<close> (order 0, \<open>BUY\<close>, price 100, qty 50)
  creates the bid level at price 100 with the one order of qty 50, and the BBO is still
  invalid on both sides afterwards.
\<close>

theorem on_market_update_add_leaves_bbo_invalid:
  "(case on_market_update (new_TEOrderBook 3)
           \<lparr>upd_type = ADD, upd_order_id = 0, upd_ticker_id = 3, upd_side = BUY,
            upd_price = 100, upd_qty = 50, upd_priority = 1\<rparr> of
      Some (Inr b) \<Rightarrow>
        Some (te_bbo b, te_bids_by_price b, tl_price (te_level_at b 0), tl_order_0 (te_level_at b 0),
              te_qty (te_order_at b 0), te_next (te_order_at b 0))
    | _ \<Rightarrow> None)
   = Some (\<lparr>bid = Price_INVALID, ask = Price_INVALID, bid_qty = Qty_INVALID, ask_qty = Qty_INVALID\<rparr>,
           Some 0, 100, Some 0, 50, Some 0)"
  by (simp add: te_defs default_BBO_def)

text \<open>The same for every \<open>ADD\<close> into an empty side of any replica: the BBO is left as it
  was.\<close>

lemma te_bbo_upd [simp]:
  "te_bbo (te_upd_order b p f) = te_bbo b"
  "te_bbo (te_upd_level b p g) = te_bbo b"
  "te_bbo (te_set_best_of_side b s x) = te_bbo b"
  by (simp_all add: te_upd_order_def te_upd_level_def te_set_best_of_side_def)

lemma te_insert_level_after_bbo:
  "te_insert_level_after b n best t = Inr b' \<Longrightarrow> te_bbo b' = te_bbo b"
  by (auto simp: te_insert_level_after_def Let_def split: option.splits if_splits)

lemma te_insert_level_before_bbo:
  "te_insert_level_before b n best t = Inr b' \<Longrightarrow> te_bbo b' = te_bbo b"
  by (auto simp: te_insert_level_before_def Let_def split: option.splits if_splits)

lemma te_add_price_level_bbo:
  "te_add_price_level b n = Some (Inr b') \<Longrightarrow> te_bbo b' = te_bbo b"
  by (auto simp: te_add_price_level_def Let_def
      dest!: te_insert_level_after_bbo te_insert_level_before_bbo
      split: option.splits sum.splits if_splits prod.splits)

lemma add_order_bbo:
  "add_order b order = Some (Inr b') \<Longrightarrow> te_bbo b' = te_bbo b"
  by (auto simp: add_order_def set_id_to_order_def Let_def
      dest!: te_add_price_level_bbo
      split: option.splits sum.splits if_splits prod.splits)

lemma on_market_update_add_empty_side:
  assumes "upd_type u = ADD"
    and "te_best_of_side b (upd_side u) = None"
    and "on_market_update b u = Some (Inr b')"
  shows "te_bbo b' = te_bbo b"
proof -
  have flags: "(case te_bids_by_price b of None \<Rightarrow> False
                | Some l \<Rightarrow> upd_side u = BUY \<and> upd_price u \<ge> tl_price (te_level_at b l)) = False"
     "(case te_asks_by_price b of None \<Rightarrow> False
                | Some l \<Rightarrow> upd_side u = SELL \<and> upd_price u \<le> tl_price (te_level_at b l)) = False"
    using assms(2) by (auto simp: te_best_of_side_def split: option.splits if_splits)
  show ?thesis
    using assms(1,3) unfolding on_market_update_def flags Let_def
    by (auto simp: update_bbo_def dest!: add_order_bbo split: option.splits sum.splits prod.splits)
qed


text \<open>
  Scenario S4 does hold: once the side is not empty, an \<open>ADD\<close> at the best price or
  better recomputes it.  After the five asks at 105, 55, 105, 55, 105 of qty 50 each the
  BBO ask is 55 with qty 100.
\<close>

lemma s4_scenario:
  "(case on_market_updates (new_TEOrderBook 3)
          [market_add 5 SELL 105 50 0, market_add 6 SELL 55 50 0, market_add 7 SELL 105 50 0,
           market_add 8 SELL 55 50 0, market_add 9 SELL 105 50 0] of
      Some (Inr b) \<Rightarrow> Some (ask (te_bbo b), ask_qty (te_bbo b))
    | _ \<Rightarrow> None) = Some (55, 100)"
  by (simp add: te_defs market_add_def default_BBO_def)


text \<open>
  \<open>update_bbo\<close> itself computes what the specification asks for: on a side whose best
  level holds a ring of orders, the price of the level and the sum of the quantities of its
  orders; on an empty side, the invalid values.
\<close>

lemma bbo_qty_loop_path:
  "te_order_path b x os (Some order_0) \<Longrightarrow> order_0 \<notin> set os \<Longrightarrow>
   bbo_qty_loop b order_0 x acc = Some (Inr (acc + sum_list (map (\<lambda>p. te_qty (te_order_at b p)) os)))"
proof (induction os arbitrary: x acc)
  case Nil
  then show ?case by (simp add: bbo_qty_loop.simps)
next
  case (Cons a os)
  from Cons.prems have x: "x = Some a" and a: "a \<noteq> order_0"
    and p: "te_order_path b (te_next (te_order_at b a)) os (Some order_0)" and n: "order_0 \<notin> set os"
    by auto
  show ?case
    apply (subst bbo_qty_loop.simps)
    apply (simp add: x a Cons.IH[OF p n] add.assoc)
    done
qed

lemma bbo_of_side_ring:
  assumes "best_opt = Some best"
    and "tl_order_0 (te_level_at b best) = Some order_0"
    and "te_order_path b (te_next (te_order_at b order_0)) os (Some order_0)"
    and "order_0 \<notin> set os"
  shows "bbo_of_side b best_opt =
         Some (Inr (tl_price (te_level_at b best),
                    sum_list (map (\<lambda>p. te_qty (te_order_at b p)) (order_0 # os))))"
  using assms by (simp add: bbo_of_side_def bbo_qty_loop_path)

lemma update_bbo_ask:
  assumes "te_asks_by_price b = Some best"
    and "tl_order_0 (te_level_at b best) = Some order_0"
    and "te_order_path b (te_next (te_order_at b order_0)) os (Some order_0)"
    and "order_0 \<notin> set os"
  shows "update_bbo b False True =
         Some (Inr (b\<lparr>te_bbo := (te_bbo b)\<lparr>ask := tl_price (te_level_at b best),
            ask_qty := sum_list (map (\<lambda>p. te_qty (te_order_at b p)) (order_0 # os))\<rparr>\<rparr>))"
  using bbo_of_side_ring[OF assms] by (simp add: update_bbo_def)

lemma update_bbo_bid:
  assumes "te_bids_by_price b = Some best"
    and "tl_order_0 (te_level_at b best) = Some order_0"
    and "te_order_path b (te_next (te_order_at b order_0)) os (Some order_0)"
    and "order_0 \<notin> set os"
  shows "update_bbo b True False =
         Some (Inr (b\<lparr>te_bbo := (te_bbo b)\<lparr>bid := tl_price (te_level_at b best),
            bid_qty := sum_list (map (\<lambda>p. te_qty (te_order_at b p)) (order_0 # os))\<rparr>\<rparr>))"
  using bbo_of_side_ring[OF assms] by (simp add: update_bbo_def)

lemma update_bbo_empty:
  "te_bids_by_price b = None \<Longrightarrow> update_bbo b True False =
     Some (Inr (b\<lparr>te_bbo := (te_bbo b)\<lparr>bid := Price_INVALID, bid_qty := Qty_INVALID\<rparr>\<rparr>))"
  "te_asks_by_price b = None \<Longrightarrow> update_bbo b False True =
     Some (Inr (b\<lparr>te_bbo := (te_bbo b)\<lparr>ask := Price_INVALID, ask_qty := Qty_INVALID\<rparr>\<rparr>))"
  by (simp_all add: update_bbo_def bbo_of_side_def)


section \<open>Proofs: the exchange order book\<close>

subsection \<open>Reading after writing\<close>

lemma order_at_upd_order [simp]:
  "order_at (upd_order b p f) q = (if q = p then f (order_at b p) else order_at b q)"
  by (simp add: order_at_def upd_order_def)

lemma level_at_upd_level [simp]:
  "level_at (upd_level b p f) q = (if q = p then f (level_at b p) else level_at b q)"
  by (simp add: level_at_def upd_level_def)

lemma order_at_upd_level [simp]: "order_at (upd_level b p f) = order_at b"
  by (simp add: order_at_def upd_level_def fun_eq_iff)

lemma level_at_upd_order [simp]: "level_at (upd_order b p f) = level_at b"
  by (simp add: level_at_def upd_order_def fun_eq_iff)

lemma order_at_fields [simp]:
  "order_at (b\<lparr>client_response := r\<rparr>) = order_at b"
  "order_at (b\<lparr>market_update := u\<rparr>) = order_at b"
  "order_at (b\<lparr>tx_responses := qr\<rparr>) = order_at b"
  "order_at (b\<lparr>tx_market_updates := qu\<rparr>) = order_at b"
  "order_at (b\<lparr>next_market_oid := n\<rparr>) = order_at b"
  "order_at (b\<lparr>map_client_id_to_order := mc\<rparr>) = order_at b"
  "order_at (b\<lparr>map_price_to_price_level := mp\<rparr>) = order_at b"
  "order_at (b\<lparr>bids_by_price := h\<rparr>) = order_at b"
  "order_at (b\<lparr>asks_by_price := h\<rparr>) = order_at b"
  "order_at (b\<lparr>orders_at_price_pool := lp\<rparr>) = order_at b"
  by (simp_all add: order_at_def fun_eq_iff)

lemma level_at_fields [simp]:
  "level_at (b\<lparr>client_response := r\<rparr>) = level_at b"
  "level_at (b\<lparr>market_update := u\<rparr>) = level_at b"
  "level_at (b\<lparr>tx_responses := qr\<rparr>) = level_at b"
  "level_at (b\<lparr>tx_market_updates := qu\<rparr>) = level_at b"
  "level_at (b\<lparr>next_market_oid := n\<rparr>) = level_at b"
  "level_at (b\<lparr>map_client_id_to_order := mc\<rparr>) = level_at b"
  "level_at (b\<lparr>map_price_to_price_level := mp\<rparr>) = level_at b"
  "level_at (b\<lparr>bids_by_price := h\<rparr>) = level_at b"
  "level_at (b\<lparr>asks_by_price := h\<rparr>) = level_at b"
  "level_at (b\<lparr>order_pool := op\<rparr>) = level_at b"
  by (simp_all add: level_at_def fun_eq_iff)

lemma at_send [simp]:
  "order_at (send_client_response b) = order_at b"
  "order_at (send_market_update b) = order_at b"
  "level_at (send_client_response b) = level_at b"
  "level_at (send_market_update b) = level_at b"
  by (simp_all add: send_client_response_def send_market_update_def)

lemma at_set_best_of_side [simp]:
  "order_at (set_best_of_side b s p) = order_at b"
  "level_at (set_best_of_side b s p) = level_at b"
  by (simp_all add: set_best_of_side_def)

subsection \<open>What the list operations leave alone\<close>

lemma upd_level_frame [simp]:
  "market_update (upd_level b p f) = market_update b"
  "tx_market_updates (upd_level b p f) = tx_market_updates b"
  "client_response (upd_level b p f) = client_response b"
  "tx_responses (upd_level b p f) = tx_responses b"
  "next_market_oid (upd_level b p f) = next_market_oid b"
  "map_client_id_to_order (upd_level b p f) = map_client_id_to_order b"
  "map_price_to_price_level (upd_level b p f) = map_price_to_price_level b"
  "bids_by_price (upd_level b p f) = bids_by_price b"
  "asks_by_price (upd_level b p f) = asks_by_price b"
  "assigned_ticker (upd_level b p f) = assigned_ticker b"
  by (simp_all add: upd_level_def)

lemma upd_order_frame [simp]:
  "market_update (upd_order b p f) = market_update b"
  "tx_market_updates (upd_order b p f) = tx_market_updates b"
  "client_response (upd_order b p f) = client_response b"
  "tx_responses (upd_order b p f) = tx_responses b"
  "next_market_oid (upd_order b p f) = next_market_oid b"
  "map_client_id_to_order (upd_order b p f) = map_client_id_to_order b"
  "map_price_to_price_level (upd_order b p f) = map_price_to_price_level b"
  "bids_by_price (upd_order b p f) = bids_by_price b"
  "asks_by_price (upd_order b p f) = asks_by_price b"
  "assigned_ticker (upd_order b p f) = assigned_ticker b"
  "orders_at_price_pool (upd_order b p f) = orders_at_price_pool b"
  by (simp_all add: upd_order_def)

lemma set_best_of_side_frame [simp]:
  "market_update (set_best_of_side b s p) = market_update b"
  "tx_market_updates (set_best_of_side b s p) = tx_market_updates b"
  "client_response (set_best_of_side b s p) = client_response b"
  "tx_responses (set_best_of_side b s p) = tx_responses b"
  "next_market_oid (set_best_of_side b s p) = next_market_oid b"
  "map_client_id_to_order (set_best_of_side b s p) = map_client_id_to_order b"
  "map_price_to_price_level (set_best_of_side b s p) = map_price_to_price_level b"
  "orders_at_price_pool (set_best_of_side b s p) = orders_at_price_pool b"
  by (simp_all add: set_best_of_side_def)

lemma remove_price_level_frame:
  "remove_price_level b s p = Inr b' \<Longrightarrow>
     market_update b' = market_update b \<and> tx_market_updates b' = tx_market_updates b \<and>
     client_response b' = client_response b \<and> tx_responses b' = tx_responses b \<and>
     next_market_oid b' = next_market_oid b"
  by (auto simp: remove_price_level_def Let_def split: option.splits sum.splits if_splits)

lemma set_client_order_frame:
  "set_client_order b c oid p = Inr b' \<Longrightarrow>
     market_update b' = market_update b \<and> tx_market_updates b' = tx_market_updates b \<and>
     client_response b' = client_response b \<and> tx_responses b' = tx_responses b \<and>
     next_market_oid b' = next_market_oid b"
  by (auto simp: set_client_order_def split: if_splits)

lemma remove_order_from_book_frame:
  "remove_order_from_book b order = Inr b' \<Longrightarrow>
     market_update b' = market_update b \<and> tx_market_updates b' = tx_market_updates b \<and>
     client_response b' = client_response b \<and> tx_responses b' = tx_responses b \<and>
     next_market_oid b' = next_market_oid b"
  by (auto simp: remove_order_from_book_def Let_def
      split: option.splits sum.splits if_splits
      dest!: remove_price_level_frame set_client_order_frame)


subsection \<open>Unfolding the operations on concrete books\<close>

lemmas book_defs = add_def cancel_def find_match_def find_match_loop.simps match_def
  add_order_to_book_def add_price_level_def add_price_level_loop.simps insert_level_after_def
  insert_level_before_def remove_order_from_book_def remove_price_level_def set_client_order_def
  get_next_priority_def get_new_market_order_id_def get_level_for_price_def price_to_index_def
  send_client_response_def send_market_update_def best_of_side_def set_best_of_side_def
  upd_order_def upd_level_def order_at_def level_at_def new_OMEOrderBook_def
  allocate_def deallocate_def update_next_free_index_def update_next_free_index_loop.simps
  new_MemPool_def should_add_after_test_def process_client_request_def
  MAX_PRICE_LEVELS_def MAX_ORDER_IDS_def MAX_N_CLIENTS_def OME_SIZE_def Let_def

lemmas queue_defs = lfq_pending_def lfq_write_def increment_write_index_def get_next_to_write_def
  new_LFQueue_def MAX_MARKET_UPDATES_def MAX_CLIENT_UPDATES_def OME_SIZE_def



subsection \<open>Cancel requests and the CANCEL update\<close>

text \<open>
  Claim C7 fails on the code.  \<open>cancel\<close> guards the client id against the size of the
  lookup table and answers \<open>CANCEL_REJECTED\<close> when it is outside, but passes the order id
  unguarded to \<open>at\<close>: for client 1 and the order id \<open>1048576 = MAX_ORDER_IDS\<close>, which no
  book holds a live order for, \<open>at\<close> throws inside the \<open>noexcept\<close> function on every
  book, the process ends and no response is written.
\<close>

theorem cancel_order_id_out_of_range:
  "cancel b 1 1048576 3 = Inl OutOfRange"
  by (simp add: cancel_def MAX_N_CLIENTS_def MAX_ORDER_IDS_def OME_SIZE_def)

text \<open>
  What \<open>cancel\<close> does where the lookup is defined.  When the client id is outside the
  table, or the order id is inside it and the slot holds no order, \<open>cancel\<close> writes
  exactly one response, a \<open>CANCEL_REJECTED\<close> with \<open>market_order_id = INVALID\<close>, writes no
  market update and changes nothing else but the buffer \<open>client_response\<close>.
\<close>

lemma cancel_rejected:
  assumes "unat client_id < MAX_N_CLIENTS \<longrightarrow>
             unat order_id < MAX_ORDER_IDS \<and>
             map_client_id_to_order b (unat client_id) (unat order_id) = None"
  shows "cancel b client_id order_id ticker_id =
           Inr (b\<lparr>client_response :=
                   \<lparr>resp_type = CANCEL_REJECTED, resp_client_id = client_id, resp_ticker_id = ticker_id,
                    resp_client_order_id = order_id, resp_market_order_id = OrderID_INVALID,
                    resp_side = Side_INVALID, resp_price = Price_INVALID,
                    resp_qty_exec = Qty_INVALID, resp_qty_remain = Qty_INVALID\<rparr>,
                 tx_responses := lfq_write (tx_responses b)
                   \<lparr>resp_type = CANCEL_REJECTED, resp_client_id = client_id, resp_ticker_id = ticker_id,
                    resp_client_order_id = order_id, resp_market_order_id = OrderID_INVALID,
                    resp_side = Side_INVALID, resp_price = Price_INVALID,
                    resp_qty_exec = Qty_INVALID, resp_qty_remain = Qty_INVALID\<rparr>\<rparr>)"
  using assms by (auto simp: cancel_def send_client_response_def)

text \<open>The slot of an order is empty once the order has been removed from the book, be it
  by \<open>cancel\<close> or by a fill, so a later \<open>cancel\<close> of the same id is rejected.\<close>

lemma remove_price_level_order_at:
  "remove_price_level b s p = Inr b' \<Longrightarrow> order_at b' = order_at b"
  by (drule order_pool_remove_price_level) (simp add: order_at_def fun_eq_iff)

lemma set_client_order_slot:
  "set_client_order b c k p = Inr b' \<Longrightarrow> map_client_id_to_order b' (unat c) (unat k) = p"
  by (auto simp: set_client_order_def split: if_splits)

lemma remove_order_from_book_clears_slot:
  assumes "remove_order_from_book b order = Inr b'"
  shows "map_client_id_to_order b' (unat (o_client_id (order_at b order)))
           (unat (o_client_order_id (order_at b order))) = None"
  using assms
  apply (simp add: remove_order_from_book_def Let_def split: option.splits sum.splits if_splits)
     apply (drule set_client_order_slot, (frule remove_price_level_order_at)?, clarsimp split: if_splits)+
  done

text \<open>
  Claim C10.  An explicit \<open>cancel\<close> of a live order writes one market update, a \<open>CANCEL\<close>
  with \<open>qty = 0\<close> and the priority of the resting order.  A \<open>match\<close> that consumes the
  resting order completely (its quantity is at most the remaining incoming quantity) writes
  a \<open>TRADE\<close> and then a \<open>CANCEL\<close> whose \<open>qty\<close> is the quantity the resting order had
  before this fill and whose priority is \<open>INVALID\<close>.
\<close>

theorem cancel_update_qty:
  "(unat client_id < MAX_N_CLIENTS \<and> unat order_id < MAX_ORDER_IDS \<and>
    map_client_id_to_order b (unat client_id) (unat order_id) = Some eo \<and>
    cancel b client_id order_id ticker_id = Inr b'
    \<longrightarrow> tx_market_updates b' = lfq_write (tx_market_updates b)
          \<lparr>upd_type = Update_CANCEL, upd_order_id = o_market_order_id (order_at b eo),
           upd_ticker_id = ticker_id, upd_side = o_side (order_at b eo),
           upd_price = o_price (order_at b eo), upd_qty = 0,
           upd_priority = o_priority (order_at b eo)\<rparr>) \<and>
   (o_qty (order_at bm order) \<le> qty_remains \<and>
    match bm ticker client side client_oid new_market_oid order qty_remains = Inr (bm', qty_remains')
    \<longrightarrow> tx_market_updates bm' = lfq_write_all (tx_market_updates bm)
          [\<lparr>upd_type = TRADE, upd_order_id = OrderID_INVALID, upd_ticker_id = ticker,
            upd_side = side, upd_price = o_price (order_at bm order),
            upd_qty = o_qty (order_at bm order), upd_priority = Priority_INVALID\<rparr>,
           \<lparr>upd_type = Update_CANCEL, upd_order_id = o_market_order_id (order_at bm order),
            upd_ticker_id = ticker, upd_side = o_side (order_at bm order),
            upd_price = o_price (order_at bm order), upd_qty = o_qty (order_at bm order),
            upd_priority = Priority_INVALID\<rparr>])"
proof (intro conjI impI)
  assume a: "unat client_id < MAX_N_CLIENTS \<and> unat order_id < MAX_ORDER_IDS \<and>
    map_client_id_to_order b (unat client_id) (unat order_id) = Some eo \<and>
    cancel b client_id order_id ticker_id = Inr b'"
  then show "tx_market_updates b' = lfq_write (tx_market_updates b)
          \<lparr>upd_type = Update_CANCEL, upd_order_id = o_market_order_id (order_at b eo),
           upd_ticker_id = ticker_id, upd_side = o_side (order_at b eo),
           upd_price = o_price (order_at b eo), upd_qty = 0,
           upd_priority = o_priority (order_at b eo)\<rparr>"
    by (auto simp: cancel_def Let_def send_client_response_def send_market_update_def
        split: sum.splits dest!: remove_order_from_book_frame)
next
  assume a: "o_qty (order_at bm order) \<le> qty_remains \<and>
    match bm ticker client side client_oid new_market_oid order qty_remains = Inr (bm', qty_remains')"
  have m: "min qty_remains (o_qty (order_at bm order)) = o_qty (order_at bm order)"
    using a by (auto simp: min_def)
  from a have "match bm ticker client side client_oid new_market_oid order qty_remains = Inr (bm', qty_remains')"
    by simp
  then show "tx_market_updates bm' = lfq_write_all (tx_market_updates bm)
          [\<lparr>upd_type = TRADE, upd_order_id = OrderID_INVALID, upd_ticker_id = ticker,
            upd_side = side, upd_price = o_price (order_at bm order),
            upd_qty = o_qty (order_at bm order), upd_priority = Priority_INVALID\<rparr>,
           \<lparr>upd_type = Update_CANCEL, upd_order_id = o_market_order_id (order_at bm order),
            upd_ticker_id = ticker, upd_side = o_side (order_at bm order),
            upd_price = o_price (order_at bm order), upd_qty = o_qty (order_at bm order),
            upd_priority = Priority_INVALID\<rparr>]"
    by (auto simp: match_def Let_def m send_client_response_def send_market_update_def
        split: sum.splits dest!: remove_order_from_book_frame)
qed


text \<open>
  Witness for C10: a resting ask of 100 at price 100 is cancelled (\<open>CANCEL\<close> with qty 0 and
  priority 1), respectively matched by a buy of 177 (\<open>CANCEL\<close> with qty 100 and priority
  \<open>INVALID\<close>).
\<close>

theorem cancel_update_qty_witness:
  "\<exists>b1 b2 b3 q.
     add (new_OMEOrderBook 3 (\<lambda>_ _. None)) 1 1 3 SELL 100 100 = Some (Inr b1) \<and>
     cancel b1 1 1 3 = Inr b2 \<and>
     map (\<lambda>u. (upd_type u, upd_qty u, upd_priority u)) (lfq_pending (tx_market_updates b2)) =
       [(ADD, 100, 1), (Update_CANCEL, 0, 1)] \<and>
     match b1 3 3 BUY 1 2 0 177 = Inr (b3, q) \<and>
     map (\<lambda>u. (upd_type u, upd_qty u, upd_priority u)) (lfq_pending (tx_market_updates b3)) =
       [(ADD, 100, 1), (TRADE, 100, Priority_INVALID), (Update_CANCEL, 100, Priority_INVALID)]"
proof -
  define b1 where "b1 = (case add (new_OMEOrderBook 3 (\<lambda>_ _. None)) 1 1 3 SELL 100 100 of Some (Inr b) \<Rightarrow> b)"
  have r1: "add (new_OMEOrderBook 3 (\<lambda>_ _. None)) 1 1 3 SELL 100 100 = Some (Inr b1)"
    by (simp add: b1_def book_defs)
  have slot: "map_client_id_to_order b1 (unat (1::ClientID)) (unat (1::OrderID)) = Some 0"
    by (simp add: b1_def book_defs)
  have ord: "order_at b1 0 = \<lparr>o_ticker_id = 3, o_client_id = 1, o_client_order_id = 1,
      o_market_order_id = 1, o_side = SELL, o_price = 100, o_qty = 100,
      o_priority = 1, o_prev = Some 0, o_next = Some 0\<rparr>"
    by (simp add: b1_def book_defs)
  have q1: "tx_market_updates b1 = lfq_write (new_LFQueue MAX_MARKET_UPDATES default_update)
      \<lparr>upd_type = ADD, upd_order_id = 1, upd_ticker_id = 3, upd_side = SELL,
       upd_price = 100, upd_qty = 100, upd_priority = 1\<rparr>"
    by (simp add: b1_def book_defs)
  obtain b2 where r2: "cancel b1 1 1 3 = Inr b2"
    by (simp add: b1_def book_defs)
  obtain b3 q where r3: "match b1 3 3 BUY 1 2 0 177 = Inr (b3, q)"
    by (simp add: b1_def book_defs)
  have rng: "unat (1::ClientID) < MAX_N_CLIENTS" "unat (1::OrderID) < MAX_ORDER_IDS"
    by (simp_all add: MAX_N_CLIENTS_def MAX_ORDER_IDS_def OME_SIZE_def)
  have le: "o_qty (order_at b1 0) \<le> 177" by (simp add: ord)
  from cancel_update_qty[where b=b1 and client_id=1 and order_id=1 and eo=0 and ticker_id=3 and b'=b2
      and bm=b1 and order=0 and qty_remains=177 and ticker=3 and client=3 and side=BUY and client_oid=1
      and new_market_oid=2 and bm'=b3 and qty_remains'=q] slot rng r2 r3 le
  have u2: "tx_market_updates b2 = lfq_write (tx_market_updates b1)
          \<lparr>upd_type = Update_CANCEL, upd_order_id = o_market_order_id (order_at b1 0),
           upd_ticker_id = 3, upd_side = o_side (order_at b1 0),
           upd_price = o_price (order_at b1 0), upd_qty = 0,
           upd_priority = o_priority (order_at b1 0)\<rparr>"
    and u3: "tx_market_updates b3 = lfq_write_all (tx_market_updates b1)
          [\<lparr>upd_type = TRADE, upd_order_id = OrderID_INVALID, upd_ticker_id = 3,
            upd_side = BUY, upd_price = o_price (order_at b1 0),
            upd_qty = o_qty (order_at b1 0), upd_priority = Priority_INVALID\<rparr>,
           \<lparr>upd_type = Update_CANCEL, upd_order_id = o_market_order_id (order_at b1 0),
            upd_ticker_id = 3, upd_side = o_side (order_at b1 0),
            upd_price = o_price (order_at b1 0), upd_qty = o_qty (order_at b1 0),
            upd_priority = Priority_INVALID\<rparr>]"
    by blast+
  have m2: "map (\<lambda>u. (upd_type u, upd_qty u, upd_priority u)) (lfq_pending (tx_market_updates b2)) =
       [(ADD, 100, 1), (Update_CANCEL, 0, 1)]"
    by (simp add: u2 q1 ord queue_defs upt2)
  have m3: "map (\<lambda>u. (upd_type u, upd_qty u, upd_priority u)) (lfq_pending (tx_market_updates b3)) =
       [(ADD, 100, 1), (TRADE, 100, Priority_INVALID), (Update_CANCEL, 100, Priority_INVALID)]"
    by (simp add: u3 q1 ord queue_defs upt3)
  show ?thesis
    apply (rule exI[of _ b1], rule exI[of _ b2], rule exI[of _ b3], rule exI[of _ q])
    apply (insert r1 r2 r3 m2 m3)
    apply (intro conjI)
    apply assumption+
    done
qed


end
